theory Spec2Isabelle
  imports Main
begin

section \<open>Values exchanged with the outside world\<close>

text \<open>
  A decoded JSON document, as Python's \<open>json\<close> module hands it to the program. An object
  is the list of its items in insertion order; the keys of one object are pairwise
  distinct, as in a Python \<open>dict\<close>. Numbers are integers (the programs never compute
  with a fractional number).
\<close>

datatype json =
    JNull
  | JBool bool
  | JInt int
  | JStr string
  | JList "json list"
  | JDict "(string \<times> json) list"

text \<open>\<open>d.get(key)\<close> and \<open>d.get(key, default)\<close> on a \<open>dict\<close>.\<close>

definition py_get_default :: "(string \<times> json) list \<Rightarrow> string \<Rightarrow> json \<Rightarrow> json" where
  "py_get_default d k dflt = (case map_of d k of None \<Rightarrow> dflt | Some v \<Rightarrow> v)"

definition py_get :: "(string \<times> json) list \<Rightarrow> string \<Rightarrow> json" where
  "py_get d k = py_get_default d k JNull"

text \<open>Truth value of an object, as used by \<open>x or y\<close> and \<open>not x\<close>.\<close>

fun py_truthy :: "json \<Rightarrow> bool" where
  "py_truthy JNull = False"
| "py_truthy (JBool b) = b"
| "py_truthy (JInt n) = (n \<noteq> 0)"
| "py_truthy (JStr s) = (s \<noteq> [])"
| "py_truthy (JList xs) = (xs \<noteq> [])"
| "py_truthy (JDict kvs) = (kvs \<noteq> [])"

definition py_or :: "json \<Rightarrow> json \<Rightarrow> json" where
  "py_or x y = (if py_truthy x then x else y)"

section \<open>The environment of one run\<close>

text \<open>
  What \<open>requests.get\<close> or \<open>requests.post\<close> does: it raises a
  \<open>requests.RequestException\<close> (connection error, timeout), or it returns the response
  the server sent, whatever its status. \<open>resp_json\<close> is the result of
  \<open>response.json()\<close>: \<open>None\<close> when the body is not JSON.
\<close>

datatype response =
  Response (status_code: int) (resp_text: string) (resp_json: "json option")

datatype attempt = RequestException string | Returned response

datatype level = INFO | WARNING | ERROR

text \<open>
  The effects of a run, in the order they happen: the HTTP requests (url, parameters or
  payload, headers, timeout), the calls of \<open>sleep\<close>, the lines given to \<open>LOGGER\<close>
  (format string and arguments) and the files written.
\<close>

datatype effect =
    Http_Get string "(string \<times> json) list" "(string \<times> string) list" int
  | Http_Post string json "(string \<times> string) list" int
  | Sleep int
  | Log level string "json list"
  | Write_File string json

text \<open>
  What reading a file as UTF-8 text and decoding it with \<open>json.load\<close> gives:
  the file is missing, \<open>open\<close> or the read raises \<open>OSError\<close>, the bytes are not
  UTF-8 text (\<open>UnicodeDecodeError\<close>), the text is not JSON
  (\<open>json.JSONDecodeError\<close>), or a document.
\<close>

datatype file_content =
    Missing
  | Raises_OSError
  | Not_UTF8
  | Not_JSON
  | Document json

text \<open>
  The world: \<open>net w k\<close> is what the network does to the \<open>k\<close>-th HTTP request of
  the run (counted from 0), \<open>files\<close> the state files on disk, \<open>writable p\<close> whether
  opening \<open>p\<close> for writing succeeds, \<open>today_iso\<close> and \<open>today_weekday\<close> what
  \<open>date.today()\<close> gives, \<open>webhook_url\<close> the constant \<open>DISCORD_WEBHOOK_URL\<close>
  (read from the process environment when the module is loaded), and \<open>trace\<close> the
  effects so far.
\<close>

record world =
  net :: "nat \<Rightarrow> attempt"
  files :: "string \<Rightarrow> file_content"
  writable :: "string \<Rightarrow> bool"
  today_iso :: string
  today_weekday :: nat
  webhook_url :: string
  trace :: "effect list"

fun is_request :: "effect \<Rightarrow> bool" where
  "is_request (Http_Get _ _ _ _) = True"
| "is_request (Http_Post _ _ _ _) = True"
| "is_request _ = False"

definition request_count :: "world \<Rightarrow> nat" where
  "request_count w = length (filter is_request (trace w))"

definition emit :: "effect \<Rightarrow> world \<Rightarrow> world" where
  "emit e w = w\<lparr>trace := trace w @ [e]\<rparr>"

definition logger :: "level \<Rightarrow> string \<Rightarrow> json list \<Rightarrow> world \<Rightarrow> world" where
  "logger lv fmt args w = emit (Log lv fmt args) w"

definition sleep :: "int \<Rightarrow> world \<Rightarrow> world" where
  "sleep n w = emit (Sleep n) w"

definition requests_get ::
  "string \<Rightarrow> (string \<times> json) list \<Rightarrow> (string \<times> string) list \<Rightarrow> int \<Rightarrow> world \<Rightarrow> attempt \<times> world" where
  "requests_get url params headers timeout w =
     (net w (request_count w), emit (Http_Get url params headers timeout) w)"

definition requests_post ::
  "string \<Rightarrow> json \<Rightarrow> (string \<times> string) list \<Rightarrow> int \<Rightarrow> world \<Rightarrow> attempt \<times> world" where
  "requests_post url payload headers timeout w =
     (net w (request_count w), emit (Http_Post url payload headers timeout) w)"

section \<open>Configuration\<close>

definition HTTP_TIMEOUT :: int where "HTTP_TIMEOUT = 15"
definition MAX_RETRIES :: int where "MAX_RETRIES = 3"
definition RETRY_BACKOFF_SECONDS :: int where "RETRY_BACKOFF_SECONDS = 3"
definition NIGERIA_COUNTRY_CODE :: string where "NIGERIA_COUNTRY_CODE = ''NG''"
definition WB_PROJECTS_API_URL :: string where
  "WB_PROJECTS_API_URL = ''https://search.worldbank.org/api/v2/projects''"

section \<open>HTTP with retries\<close>

text \<open>
  \<open>get_with_retries\<close> and \<open>post_with_retries\<close>, the same in \<open>monitor_agent.py\<close> and
  \<open>main.py\<close>. The \<open>while attempt <= max_retries\<close> loop is the recursion on
  \<open>attempt\<close>; \<open>return response\<close> and \<open>return None\<close> leave it.
\<close>

function get_with_retries_loop ::
  "string \<Rightarrow> (string \<times> json) list \<Rightarrow> (string \<times> string) list \<Rightarrow> int \<Rightarrow> int \<Rightarrow> int \<Rightarrow> world
     \<Rightarrow> response option \<times> world" where
  "get_with_retries_loop url params headers timeout max_retries attempt w =
     (if attempt \<le> max_retries then
        (case requests_get url params headers timeout w of
           (Returned response, w1) \<Rightarrow> (Some response, w1)
         | (RequestException exc, w1) \<Rightarrow>
             if attempt = max_retries then
               (None, logger ERROR ''GET %s failed after %d attempts: %s''
                        [JStr url, JInt attempt, JStr exc] w1)
             else
               get_with_retries_loop url params headers timeout max_retries (attempt + 1)
                 (sleep (RETRY_BACKOFF_SECONDS * attempt)
                    (logger WARNING ''GET %s failed on attempt %d/%d: %s; retrying...''
                       [JStr url, JInt attempt, JInt max_retries, JStr exc] w1)))
      else (None, w))"
  by pat_completeness auto
termination
  by (relation "measure (\<lambda>(url, params, headers, timeout, max_retries, attempt, w).
        nat (max_retries + 1 - attempt))") auto

definition get_with_retries ::
  "string \<Rightarrow> (string \<times> json) list \<Rightarrow> (string \<times> string) list \<Rightarrow> int \<Rightarrow> int \<Rightarrow> world
     \<Rightarrow> response option \<times> world" where
  "get_with_retries url params headers timeout max_retries w =
     get_with_retries_loop url params headers timeout max_retries 1 w"

function post_with_retries_loop ::
  "string \<Rightarrow> json \<Rightarrow> (string \<times> string) list \<Rightarrow> int \<Rightarrow> int \<Rightarrow> int \<Rightarrow> world
     \<Rightarrow> response option \<times> world" where
  "post_with_retries_loop url payload headers timeout max_retries attempt w =
     (if attempt \<le> max_retries then
        (case requests_post url payload headers timeout w of
           (Returned response, w1) \<Rightarrow> (Some response, w1)
         | (RequestException exc, w1) \<Rightarrow>
             if attempt = max_retries then
               (None, logger ERROR ''POST %s failed after %d attempts: %s''
                        [JStr url, JInt attempt, JStr exc] w1)
             else
               post_with_retries_loop url payload headers timeout max_retries (attempt + 1)
                 (sleep (RETRY_BACKOFF_SECONDS * attempt)
                    (logger WARNING ''POST %s failed on attempt %d/%d: %s; retrying...''
                       [JStr url, JInt attempt, JInt max_retries, JStr exc] w1)))
      else (None, w))"
  by pat_completeness auto
termination
  by (relation "measure (\<lambda>(url, payload, headers, timeout, max_retries, attempt, w).
        nat (max_retries + 1 - attempt))") auto

definition post_with_retries ::
  "string \<Rightarrow> json \<Rightarrow> (string \<times> string) list \<Rightarrow> int \<Rightarrow> int \<Rightarrow> world
     \<Rightarrow> response option \<times> world" where
  "post_with_retries url payload headers timeout max_retries w =
     post_with_retries_loop url payload headers timeout max_retries 1 w"

section \<open>Keyword matching\<close>

text \<open>
  Strings are lists of characters with codes below 256. \<open>str.lower()\<close> maps \<open>A..Z\<close>
  and the upper-case letters of Latin-1 to their lower-case letters.
\<close>

definition py_lower_char :: "char \<Rightarrow> char" where
  "py_lower_char c =
     (let n = (of_char c :: nat) in
      if (65 \<le> n \<and> n \<le> 90) \<or> (192 \<le> n \<and> n \<le> 222 \<and> n \<noteq> 215)
      then char_of (n + 32) else c)"

definition py_lower :: "string \<Rightarrow> string" where
  "py_lower s = map py_lower_char s"

text \<open>\<open>sub in s\<close> on strings: \<open>sub\<close> occurs in \<open>s\<close> at some position.\<close>

fun py_startswith :: "string \<Rightarrow> string \<Rightarrow> bool" where
  "py_startswith [] s = True"
| "py_startswith (x # xs) [] = False"
| "py_startswith (x # xs) (c # cs) = (x = c \<and> py_startswith xs cs)"

fun py_in :: "string \<Rightarrow> string \<Rightarrow> bool" where
  "py_in sub [] = (sub = [])"
| "py_in sub (c # cs) = (py_startswith sub (c # cs) \<or> py_in sub cs)"

text \<open>\<open>sep.join(parts)\<close>.\<close>

fun py_join :: "string \<Rightarrow> string list \<Rightarrow> string" where
  "py_join sep [] = []"
| "py_join sep [x] = x"
| "py_join sep (x # y # ys) = x @ sep @ py_join sep (y # ys)"

text \<open>
  \<open>text_matches_keywords\<close> of \<open>monitor_agent.py\<close>; \<open>keywords_loop\<close> is its
  \<open>for kw in keywords\<close> loop, which returns at the first keyword found.
\<close>

fun keywords_loop :: "string \<Rightarrow> string list \<Rightarrow> bool" where
  "keywords_loop lower_text [] = False"
| "keywords_loop lower_text (kw # keywords) =
     (if py_in (py_lower kw) lower_text then True else keywords_loop lower_text keywords)"

definition text_matches_keywords :: "string \<Rightarrow> string list \<Rightarrow> bool" where
  "text_matches_keywords text keywords =
     (if text = [] then False else keywords_loop (py_lower text) keywords)"

type_synonym pydict = "(string \<times> json) list"

text \<open>\<open>extract_project_text\<close>, the same in both files.\<close>

definition strings_of :: "json list \<Rightarrow> string list" where
  "strings_of vs = concat (map (\<lambda>v. case v of JStr s \<Rightarrow> [s] | _ \<Rightarrow> []) vs)"

definition extract_project_text :: "pydict \<Rightarrow> string" where
  "extract_project_text project =
     (let title = py_or (py_get project ''project_name'') (JStr []);
          parts = (case title of JStr s \<Rightarrow> [s] | _ \<Rightarrow> []);
          abstract = py_get project ''project_abstract'';
          parts = (case abstract of
                     JDict kvs \<Rightarrow> parts @ strings_of (map snd kvs)
                   | _ \<Rightarrow> parts)
      in py_join [CHR '' '', CHR 0x0A] parts)"

text \<open>\<open>project_matches_keywords(project, keywords)\<close> of \<open>main.py\<close>.\<close>

definition main_project_matches_keywords :: "pydict \<Rightarrow> string list \<Rightarrow> bool" where
  "main_project_matches_keywords project keywords =
     (let text = extract_project_text project in
      if text = [] then False else keywords_loop (py_lower text) keywords)"

section \<open>More of Python\<close>

datatype exn = AttributeError | TypeError | ValueError | UnicodeDecodeError

text \<open>\<open>str(n)\<close> for an integer.\<close>

function str_nat :: "nat \<Rightarrow> string" where
  "str_nat n = (if n < 10 then [char_of (48 + n)] else str_nat (n div 10) @ [char_of (48 + n mod 10)])"
  by pat_completeness auto
termination
  by (relation "measure id") auto

definition str_int :: "int \<Rightarrow> string" where
  "str_int i = (if i < 0 then CHR ''-'' # str_nat (nat (- i)) else str_nat (nat i))"

text \<open>
  \<open>repr\<close> of a string: single quotes, unless the string has a single quote and no
  double quote; the quote and the backslash are escaped, and so are the characters
  that are not printable.
\<close>

definition hex_digit :: "nat \<Rightarrow> char" where
  "hex_digit d = (if d < 10 then char_of (48 + d) else char_of (87 + d))"

definition repr_char :: "char \<Rightarrow> char \<Rightarrow> string" where
  "repr_char quote c =
     (let n = (of_char c :: nat) in
      if c = quote \<or> c = CHR 0x5C then [CHR 0x5C, c]
      else if n = 9 then [CHR 0x5C, CHR ''t'']
      else if n = 10 then [CHR 0x5C, CHR ''n'']
      else if n = 13 then [CHR 0x5C, CHR ''r'']
      else if n < 32 \<or> (127 \<le> n \<and> n \<le> 160) \<or> n = 173
        then [CHR 0x5C, CHR ''x'', hex_digit (n div 16), hex_digit (n mod 16)]
      else [c])"

definition repr_str :: "string \<Rightarrow> string" where
  "repr_str s =
     (let quote = (if CHR 0x27 \<in> set s \<and> CHR 0x22 \<notin> set s then CHR 0x22 else CHR 0x27)
      in [quote] @ concat (map (repr_char quote) s) @ [quote])"

fun py_repr :: "json \<Rightarrow> string" where
  "py_repr JNull = ''None''"
| "py_repr (JBool b) = (if b then ''True'' else ''False'')"
| "py_repr (JInt n) = str_int n"
| "py_repr (JStr s) = repr_str s"
| "py_repr (JList xs) = ''['' @ py_join '', '' (map py_repr xs) @ '']''"
| "py_repr (JDict kvs) =
     ''{'' @ py_join '', '' (map (\<lambda>(k, v). repr_str k @ '': '' @ py_repr v) kvs) @ ''}''"

text \<open>\<open>str(x)\<close>, which is also how an f-string and \<open>%s\<close> render \<open>x\<close>.\<close>

definition py_str :: "json \<Rightarrow> string" where
  "py_str x = (case x of JStr s \<Rightarrow> s | _ \<Rightarrow> py_repr x)"

text \<open>\<open>s.strip()\<close>.\<close>

definition py_isspace :: "char \<Rightarrow> bool" where
  "py_isspace c =
     (let n = (of_char c :: nat) in (9 \<le> n \<and> n \<le> 13) \<or> (28 \<le> n \<and> n \<le> 32) \<or> n = 133 \<or> n = 160)"

definition py_strip :: "string \<Rightarrow> string" where
  "py_strip s = rev (dropWhile py_isspace (rev (dropWhile py_isspace s)))"

text \<open>
  \<open>int(x)\<close>: a number as it is, a string when it is a decimal literal (white space
  around it, a sign, single underscores between digits), \<open>ValueError\<close> for another
  string and \<open>TypeError\<close> for \<open>None\<close>, a list or a dict.
\<close>

definition is_digit :: "char \<Rightarrow> bool" where
  "is_digit c = (let n = (of_char c :: nat) in 48 \<le> n \<and> n \<le> 57)"

fun digits_ok :: "string \<Rightarrow> bool" where
  "digits_ok [] = False"
| "digits_ok [c] = is_digit c"
| "digits_ok (c # d # cs) =
     (is_digit c \<and> (if d = CHR ''_'' then cs \<noteq> [] \<and> digits_ok cs else digits_ok (d # cs)))"

definition digits_value :: "string \<Rightarrow> nat" where
  "digits_value s = foldl (\<lambda>acc c. 10 * acc + (of_char c - 48)) 0 (filter is_digit s)"

definition int_of_string :: "string \<Rightarrow> exn + int" where
  "int_of_string s =
     (let t = py_strip s;
          (neg, body) = (case t of
                           c # cs \<Rightarrow> if c = CHR ''-'' then (True, cs)
                                     else if c = CHR ''+'' then (False, cs) else (False, t)
                         | [] \<Rightarrow> (False, t))
      in if digits_ok body
         then Inr (if neg then - int (digits_value body) else int (digits_value body))
         else Inl ValueError)"

fun py_int :: "json \<Rightarrow> exn + int" where
  "py_int (JInt n) = Inr n"
| "py_int (JBool b) = Inr (if b then 1 else 0)"
| "py_int (JStr s) = int_of_string s"
| "py_int JNull = Inl TypeError"
| "py_int (JList xs) = Inl TypeError"
| "py_int (JDict kvs) = Inl TypeError"

text \<open>
  \<open>urllib.parse.quote_plus\<close>: letters, digits and \<open>_.-~\<close> stay, a space becomes
  \<open>+\<close>, every other character becomes the \<open>%XX\<close> of its UTF-8 bytes.
\<close>

definition percent_byte :: "nat \<Rightarrow> string" where
  "percent_byte b =
     [CHR ''%'',
      (if b div 16 < 10 then char_of (48 + b div 16) else char_of (55 + b div 16)),
      (if b mod 16 < 10 then char_of (48 + b mod 16) else char_of (55 + b mod 16))]"

definition quote_plus_char :: "char \<Rightarrow> string" where
  "quote_plus_char c =
     (let n = (of_char c :: nat) in
      if (48 \<le> n \<and> n \<le> 57) \<or> (65 \<le> n \<and> n \<le> 90) \<or> (97 \<le> n \<and> n \<le> 122)
         \<or> c \<in> set ''_.-~'' then [c]
      else if c = CHR '' '' then ''+''
      else if n < 128 then percent_byte n
      else percent_byte (192 + n div 64) @ percent_byte (128 + n mod 64))"

definition quote_plus :: "string \<Rightarrow> string" where
  "quote_plus s = concat (map quote_plus_char s)"

section \<open>State files\<close>

text \<open>
  A state map is a Python \<open>dict\<close> from record id to marker: the items in insertion
  order. \<open>dict_set d k v\<close> is \<open>d[k] = v\<close>: the value of an existing key is replaced in
  place, a new key goes to the end.
\<close>

type_synonym state_map = "(string \<times> string) list"

fun dict_set :: "('k \<times> 'v) list \<Rightarrow> 'k \<Rightarrow> 'v \<Rightarrow> ('k \<times> 'v) list" where
  "dict_set [] k v = [(k, v)]"
| "dict_set ((k', v') # d) k v = (if k' = k then (k, v) # d else (k', v') # dict_set d k v)"

text \<open>A dict comprehension: the items are inserted one after the other.\<close>

definition dict_of :: "('k \<times> 'v) list \<Rightarrow> ('k \<times> 'v) list" where
  "dict_of items = fold (\<lambda>(k, v) d. dict_set d k v) items []"

text \<open>
  \<open>_load_state_map\<close> of \<open>monitor_agent.py\<close>, which is also \<open>load_processed_projects\<close>
  of \<open>main.py\<close>. Only \<open>OSError\<close> and \<open>json.JSONDecodeError\<close> are caught; a
  \<open>UnicodeDecodeError\<close> raised by \<open>json.load\<close> leaves the function.
\<close>

definition load_state_map :: "string \<Rightarrow> world \<Rightarrow> exn + state_map" where
  "load_state_map path w =
     (case files w path of
        Missing \<Rightarrow> Inr []
      | Raises_OSError \<Rightarrow> Inr []
      | Not_JSON \<Rightarrow> Inr []
      | Not_UTF8 \<Rightarrow> Inl UnicodeDecodeError
      | Document data \<Rightarrow>
          (case data of
             JDict kvs \<Rightarrow> Inr (dict_of (map (\<lambda>(k, v). (py_str (JStr k), py_str v)) kvs))
           | JList items \<Rightarrow> Inr (dict_of (map (\<lambda>item. (py_str item, [])) items))
           | _ \<Rightarrow> Inr []))"

text \<open>\<open>load_monitor_state\<close> of \<open>main.py\<close>: a list is not read as a legacy state.\<close>

definition main_load_monitor_state :: "string \<Rightarrow> world \<Rightarrow> exn + state_map" where
  "main_load_monitor_state path w =
     (case files w path of
        Missing \<Rightarrow> Inr []
      | Raises_OSError \<Rightarrow> Inr []
      | Not_JSON \<Rightarrow> Inr []
      | Not_UTF8 \<Rightarrow> Inl UnicodeDecodeError
      | Document data \<Rightarrow>
          (case data of
             JDict kvs \<Rightarrow> Inr (dict_of (map (\<lambda>(k, v). (py_str (JStr k), py_str v)) kvs))
           | _ \<Rightarrow> Inr []))"

text \<open>
  \<open>_save_state_map\<close>, \<open>save_monitor_state\<close> and \<open>save_processed_projects\<close>: the whole
  map is written; an \<open>OSError\<close> is logged with the message \<open>fmt\<close> of the caller.
\<close>

definition json_of_state :: "state_map \<Rightarrow> json" where
  "json_of_state mapping = JDict (map (\<lambda>(k, v). (k, JStr v)) mapping)"

definition write_state :: "string \<Rightarrow> json list \<Rightarrow> string \<Rightarrow> state_map \<Rightarrow> world \<Rightarrow> world" where
  "write_state fmt args path mapping w =
     (if writable w path
      then emit (Write_File path (json_of_state mapping))
             (w\<lparr>files := (files w)(path := Document (json_of_state mapping))\<rparr>)
      else logger ERROR fmt args w)"

definition save_state_map :: "string \<Rightarrow> state_map \<Rightarrow> world \<Rightarrow> world" where
  "save_state_map path mapping w =
     write_state ''Failed to save state to %s: %s'' [JStr path, JStr ''OSError''] path mapping w"

definition PROJECTS_STATE_FILE :: string where "PROJECTS_STATE_FILE = ''processed_projects.json''"
definition DOCS_STATE_FILE :: string where "DOCS_STATE_FILE = ''processed_docs.json''"
definition TENDERS_STATE_FILE :: string where "TENDERS_STATE_FILE = ''processed_tenders.json''"
definition AWARDS_STATE_FILE :: string where "AWARDS_STATE_FILE = ''processed_awards.json''"
definition MONITOR_STATE_FILE :: string where "MONITOR_STATE_FILE = ''monitor_state.json''"
definition PROCESSED_IDS_FILE :: string where "PROCESSED_IDS_FILE = ''processed_ids.json''"

definition save_monitor_state :: "state_map \<Rightarrow> world \<Rightarrow> world" where
  "save_monitor_state state w = save_state_map MONITOR_STATE_FILE state w"

definition main_save_monitor_state :: "state_map \<Rightarrow> world \<Rightarrow> world" where
  "main_save_monitor_state state w =
     write_state ''Failed to save monitor state: %s'' [JStr ''OSError''] MONITOR_STATE_FILE state w"

definition save_processed_projects :: "state_map \<Rightarrow> world \<Rightarrow> world" where
  "save_processed_projects projects w =
     write_state ''Failed to save processed projects: %s'' [JStr ''OSError''] PROCESSED_IDS_FILE projects w"

section \<open>Fetching the projects\<close>

text \<open>
  The loop over \<open>projects.values()\<close> of one page: a project is kept when its
  \<open>countrycode\<close> is a list that contains \<open>"NG"\<close>. A value that is not a dict has no
  \<open>get\<close>: \<open>AttributeError\<close>. The loop is the same in both files.
\<close>

fun select_nigeria :: "pydict list \<Rightarrow> json list \<Rightarrow> exn + pydict list" where
  "select_nigeria all_projects [] = Inr all_projects"
| "select_nigeria all_projects (proj # rest) =
     (case proj of
        JDict p \<Rightarrow>
          (let country_codes = py_or (py_get p ''countrycode'') (JList []) in
           select_nigeria
             (case country_codes of
                JList codes \<Rightarrow>
                  if JStr NIGERIA_COUNTRY_CODE \<in> set codes then all_projects @ [p] else all_projects
              | _ \<Rightarrow> all_projects)
             rest)
      | _ \<Rightarrow> Inl AttributeError)"

text \<open>
  One round of the \<open>while True\<close> loop of a fetch: either the loop is left (a \<open>break\<close>
  followed by \<open>return all_projects\<close>, or an exception that nothing catches), or the
  next page is asked for. \<open>response.raise_for_status()\<close> raises for the statuses from
  400 to 599. The round is the same in both files but for the query parameters, the
  \<open>User-Agent\<close> and the log lines.
\<close>

datatype page_result =
    Done "(exn + pydict list) \<times> world"
  | Next_Page "pydict list" world

definition raises_for_status :: "response \<Rightarrow> bool" where
  "raises_for_status response = (400 \<le> status_code response \<and> status_code response < 600)"

definition projects_params :: "int \<Rightarrow> int \<Rightarrow> (string \<times> json) list" where
  "projects_params rows_per_page page =
     [(''format'', JStr ''json''),
      (''status'', JStr ''Active''),
      (''countrycode_exact'', JStr NIGERIA_COUNTRY_CODE),
      (''rows'', JInt rows_per_page),
      (''page'', JInt page)]"

definition fetch_projects_page :: "int \<Rightarrow> pydict list \<Rightarrow> int \<Rightarrow> world \<Rightarrow> page_result" where
  "fetch_projects_page rows_per_page all_projects page w =
     (case get_with_retries WB_PROJECTS_API_URL (projects_params rows_per_page page)
             [(''User-Agent'', ''WB-GIS-Monitor-Agent/1.0'')] HTTP_TIMEOUT MAX_RETRIES w of
        (None, w1) \<Rightarrow>
          Done (Inr all_projects, logger ERROR ''Failed to fetch projects page %d.'' [JInt page] w1)
      | (Some response, w1) \<Rightarrow>
          if raises_for_status response then
            Done (Inr all_projects,
                  logger ERROR ''Projects API error on page %d: %s''
                    [JInt page, JInt (status_code response)] w1)
          else
            (case resp_json response of
               None \<Rightarrow>
                 Done (Inr all_projects,
                       logger ERROR ''Failed to parse JSON from Projects API: %s''
                         [JStr (resp_text response)] w1)
             | Some (JDict payload) \<Rightarrow>
                 (case py_int (py_get_default payload ''total'' (JInt 0)) of
                    Inl e \<Rightarrow> Done (Inl e, w1)
                  | Inr total_n \<Rightarrow>
                 (case py_int (py_get_default payload ''rows'' (JInt rows_per_page)) of
                    Inl e \<Rightarrow> Done (Inl e, w1)
                  | Inr rows \<Rightarrow>
                 (case py_or (py_get payload ''projects'') (JDict []) of
                    JDict projects \<Rightarrow>
                      (case select_nigeria all_projects (map snd projects) of
                         Inl e \<Rightarrow> Done (Inl e, w1)
                       | Inr all_projects' \<Rightarrow>
                           (let w2 = logger INFO ''Projects: page %d -> %d rows (total=%d).''
                                       [JInt page, JInt (int (length projects)), JInt total_n] w1
                            in if page * rows \<ge> total_n \<or> projects = []
                               then Done (Inr all_projects', w2)
                               else Next_Page all_projects' w2))
                  | _ \<Rightarrow>
                      Done (Inr all_projects,
                            logger WARNING ''Unexpected 'projects' structure from API.'' [] w1))))
             | Some _ \<Rightarrow> Done (Inl AttributeError, w1)))"

text \<open>
  The \<open>while True\<close> loop of \<open>fetch_projects_for_nigeria\<close>. Nothing bounds the number
  of pages (a server that reports \<open>rows = 0\<close> and a positive \<open>total\<close> is asked
  forever), so that the loop is a partial function: \<open>None\<close> when it never returns.
\<close>

partial_function (option) fetch_projects_loop ::
  "int \<Rightarrow> pydict list \<Rightarrow> int \<Rightarrow> world \<Rightarrow> ((exn + pydict list) \<times> world) option" where
  "fetch_projects_loop rows_per_page all_projects page w =
     (case fetch_projects_page rows_per_page all_projects page w of
        Done r \<Rightarrow> Some r
      | Next_Page all_projects' w' \<Rightarrow> fetch_projects_loop rows_per_page all_projects' (page + 1) w')"

definition fetch_projects_for_nigeria ::
  "int \<Rightarrow> world \<Rightarrow> ((exn + pydict list) \<times> world) option" where
  "fetch_projects_for_nigeria rows_per_page w = fetch_projects_loop rows_per_page [] 1 w"

text \<open>\<open>fetch_active_projects_for_nigeria\<close> of \<open>main.py\<close>.\<close>

definition main_projects_params :: "int \<Rightarrow> int \<Rightarrow> (string \<times> json) list" where
  "main_projects_params rows_per_page page =
     [(''format'', JStr ''json''),
      (''status'', JStr ''Active''),
      (''rows'', JInt rows_per_page),
      (''page'', JInt page)]"

definition main_fetch_page :: "int \<Rightarrow> pydict list \<Rightarrow> int \<Rightarrow> world \<Rightarrow> page_result" where
  "main_fetch_page rows_per_page all_projects page w =
     (case get_with_retries WB_PROJECTS_API_URL (main_projects_params rows_per_page page)
             [(''User-Agent'', ''WB-GIS-Monitor/1.0'')] HTTP_TIMEOUT MAX_RETRIES w of
        (None, w1) \<Rightarrow>
          Done (Inr all_projects,
                logger ERROR ''Failed to fetch page %d from World Bank API.'' [JInt page] w1)
      | (Some response, w1) \<Rightarrow>
          if raises_for_status response then
            Done (Inr all_projects,
                  logger ERROR ''World Bank API responded with error on page %d: %s''
                    [JInt page, JInt (status_code response)] w1)
          else
            (case resp_json response of
               None \<Rightarrow>
                 Done (Inr all_projects,
                       logger ERROR ''Failed to parse JSON from World Bank API: %s''
                         [JStr (resp_text response)] w1)
             | Some (JDict payload) \<Rightarrow>
                 (case py_int (py_get_default payload ''total'' (JInt 0)) of
                    Inl e \<Rightarrow> Done (Inl e, w1)
                  | Inr total_n \<Rightarrow>
                 (case py_int (py_get_default payload ''rows'' (JInt rows_per_page)) of
                    Inl e \<Rightarrow> Done (Inl e, w1)
                  | Inr rows \<Rightarrow>
                 (case py_or (py_get payload ''projects'') (JDict []) of
                    JDict projects_dict \<Rightarrow>
                      (case select_nigeria all_projects (map snd projects_dict) of
                         Inl e \<Rightarrow> Done (Inl e, w1)
                       | Inr all_projects' \<Rightarrow>
                           (let w2 = logger INFO ''Retrieved page %d: %d projects (total=%d).''
                                       [JInt page, JInt (int (length projects_dict)), JInt total_n] w1
                            in if page * rows \<ge> total_n \<or> projects_dict = []
                               then Done (Inr all_projects', w2)
                               else Next_Page all_projects' w2))
                  | _ \<Rightarrow>
                      Done (Inr all_projects,
                            logger WARNING ''Unexpected 'projects' format from API.'' [] w1))))
             | Some _ \<Rightarrow> Done (Inl AttributeError, w1)))"

partial_function (option) main_fetch_loop ::
  "int \<Rightarrow> pydict list \<Rightarrow> int \<Rightarrow> world \<Rightarrow> ((exn + pydict list) \<times> world) option" where
  "main_fetch_loop rows_per_page all_projects page w =
     (case main_fetch_page rows_per_page all_projects page w of
        Done r \<Rightarrow> Some r
      | Next_Page all_projects' w' \<Rightarrow> main_fetch_loop rows_per_page all_projects' (page + 1) w')"

definition fetch_active_projects_for_nigeria ::
  "int \<Rightarrow> world \<Rightarrow> ((exn + pydict list) \<times> world) option" where
  "fetch_active_projects_for_nigeria rows_per_page w = main_fetch_loop rows_per_page [] 1 w"

section \<open>Keyword lists\<close>

text \<open>\<open>KEYWORDS\<close> of \<open>monitor_agent.py\<close>.\<close>

definition KEYWORDS :: "string list" where
  "KEYWORDS =
     [''GIS'', ''Geographic Information System'', ''Geospatial'', ''Geo-spatial'', ''Spatial'',
      ''Spatial Data'', ''Spatial Analysis'', ''Spatial Analytics'', ''Spatial Planning'',
      ''Location Intelligence'', ''Geo-data'', ''Location Data'', ''Location-based'',
      ''Mapping'', ''Map'', ''Cartography'', ''Topographic'', ''Topography'', ''Base Map'',
      ''Basemap'', ''Remote Sensing'', ''Earth Observation'', ''EO Data'', ''Satellite'',
      ''Satellite Imagery'', ''Imagery'', ''Image Analysis'', ''LiDAR'', ''Raster Data'',
      ''UAV'', ''Drone'', ''Aerial Survey'', ''Aerial Photography'', ''GNSS'', ''GPS'',
      ''Survey'', ''Surveying'', ''Land Survey'', ''Cadastral'', ''Cadastre'',
      ''Land Administration'', ''Land Registration'', ''Land Use'', ''Parcel'',
      ''Parcel Mapping'', ''Boundary'', ''Boundary Mapping'', ''Geodetic'',
      ''Environmental Monitoring'', ''Environmental Information System'',
      ''Natural Resource Mapping'', ''Natural Resource Management'', ''Watershed Management'',
      ''Hydrological Modeling'', ''Hydrology'', ''Flood Risk Mapping'',
      ''Flood Hazard Mapping'', ''Disaster Risk Mapping'', ''Disaster Risk Management'',
      ''DRM Platform'', ''Climate Risk Mapping'', ''Climate Risk Assessment'',
      ''Climate Vulnerability'', ''Vulnerability Mapping'', ''Coastal Erosion Mapping'',
      ''Ecosystem Mapping'', ''Habitat Mapping'', ''Biodiversity Mapping'',
      ''Climate Resilience'', ''Urban Spatial Planning'', ''Urban Planning'',
      ''Transport Modeling'', ''Accessibility Analysis'', ''Network Analysis'',
      ''Health Mapping'', ''Disease Mapping'', ''Epidemiological Mapping'',
      ''Spatial Epidemiology'', ''Disease Hotspot'', ''Hotspot Mapping'',
      ''Disease Surveillance'', ''Outbreak Mapping'', ''Health Facility Mapping'',
      ''Service Coverage Mapping'']"

text \<open>\<open>KEYWORDS\<close> of \<open>main.py\<close>.\<close>

definition main_KEYWORDS :: "string list" where
  "main_KEYWORDS =
     [''GIS'', ''Geographic Information System'', ''Geospatial'', ''Geo-spatial'', ''Spatial'',
      ''Spatial Data'', ''Spatial Analysis'', ''Spatial Analytics'', ''Spatial Planning'',
      ''Location Intelligence'', ''Geo-data'', ''Location Data'', ''Location-based'',
      ''Mapping'', ''Map'', ''Cartography'', ''Topographic'', ''Topography'', ''Base Map'',
      ''Basemap'', ''Remote Sensing'', ''Earth Observation'', ''EO Data'', ''Satellite'',
      ''Satellite Imagery'', ''Imagery'', ''Image Analysis'', ''LiDAR'', ''Raster Data'',
      ''UAV'', ''Drone'', ''Aerial Survey'', ''Aerial Photography'', ''GNSS'', ''GPS'',
      ''Survey'', ''Surveying'', ''Land Survey'', ''Cadastral'', ''Cadastre'',
      ''Land Administration'', ''Land Registration'', ''Land Use'', ''Parcel'',
      ''Parcel Mapping'', ''Boundary'', ''Boundary Mapping'', ''Geodetic'',
      ''Environmental Monitoring'', ''Environmental Information System'',
      ''Natural Resource Mapping'', ''Watershed Management'', ''Hydrological Modeling'',
      ''Hydrology'', ''Flood Risk Mapping'', ''Flood Hazard Mapping'',
      ''Disaster Risk Mapping'', ''Disaster Risk Management'', ''DRM Platform'',
      ''Climate Risk Mapping'', ''Climate Risk Assessment'', ''Climate Vulnerability'',
      ''Vulnerability Mapping'', ''Coastal Erosion Mapping'', ''Ecosystem Mapping'',
      ''Habitat Mapping'', ''Biodiversity Mapping'', ''Urban Spatial Planning'',
      ''Transport Modeling'', ''Accessibility Analysis'', ''Network Analysis'',
      ''Health Mapping'', ''Disease Mapping'', ''Epidemiological Mapping'',
      ''Spatial Epidemiology'', ''Disease Hotspot'', ''Hotspot Mapping'',
      ''Disease Surveillance'', ''Outbreak Mapping'', ''Health Facility Mapping'',
      ''Service Coverage Mapping'']"

text \<open>\<open>CONTRACTOR_SEARCH_TERMS\<close>, the same in both files.\<close>

definition CONTRACTOR_SEARCH_TERMS :: "string list" where
  "CONTRACTOR_SEARCH_TERMS =
     [''GIS'', ''geospatial'', ''spatial analysis'', ''spatial analytics'', ''mapping'',
      ''remote sensing'', ''satellite imagery'', ''drone survey'', ''land administration'',
      ''cadastral mapping'', ''surveying'', ''spatial data'', ''environmental monitoring'',
      ''natural resource management'', ''watershed management'', ''hydrology'', ''flood risk'',
      ''disaster risk management'', ''climate risk'', ''climate resilience'',
      ''health mapping'', ''disease surveillance'', ''epidemiology'', ''consultant'',
      ''consulting'', ''technical assistance'', ''implementation'', ''implementation partner'',
      ''engineering'', ''engineering firm'']"
section \<open>Formatting a project\<close>

definition get_project_last_update :: "pydict \<Rightarrow> string" where
  "get_project_last_update project =
     (case py_or (py_get project ''p2a_updated_date'') (JStr []) of
        JStr updated \<Rightarrow> updated
      | _ \<Rightarrow> [])"

text \<open>\<open>str(project.get("id") or "").strip()\<close>.\<close>

definition project_id_of :: "pydict \<Rightarrow> string" where
  "project_id_of project = py_strip (py_str (py_or (py_get project ''id'') (JStr [])))"

definition format_project_approval_date :: "pydict \<Rightarrow> string" where
  "format_project_approval_date project =
     (case py_get project ''boardapprovaldate'' of
        JStr raw_date \<Rightarrow> if raw_date \<noteq> [] then takeWhile (\<lambda>c. c \<noteq> CHR ''T'') raw_date else ''N/A''
      | _ \<Rightarrow> ''N/A'')"

definition format_project_total_amount :: "pydict \<Rightarrow> string" where
  "format_project_total_amount project =
     (case py_or (py_get project ''totalamt'') (py_get project ''totalcommamt'') of
        JStr amount \<Rightarrow> if amount \<noteq> [] then ''$'' @ amount else ''N/A''
      | _ \<Rightarrow> ''N/A'')"

text \<open>\<open>format_total_amount\<close> of \<open>main.py\<close>.\<close>

definition main_format_total_amount :: "pydict \<Rightarrow> string" where
  "main_format_total_amount project =
     (case py_or (py_get project ''totalamt'') (py_get project ''totalcommamt'') of
        JStr amount \<Rightarrow> ''$'' @ amount
      | _ \<Rightarrow> ''N/A'')"

definition get_project_url :: "pydict \<Rightarrow> string" where
  "get_project_url project =
     (let proj_id = project_id_of project;
          by_id = (if proj_id \<noteq> []
                   then ''https://projects.worldbank.org/en/projects-operations/project-detail/'' @ proj_id
                   else ''https://projects.worldbank.org/en/projects-operations/projects-overview'')
      in case py_get project ''url'' of
           JStr url \<Rightarrow> if url \<noteq> [] then url else by_id
         | _ \<Rightarrow> by_id)"

definition dquoted :: "string \<Rightarrow> string" where
  "dquoted s = [CHR 0x22] @ s @ [CHR 0x22]"

definition build_contractor_search_url :: "string \<Rightarrow> string" where
  "build_contractor_search_url project_name =
     (let terms = [dquoted ''World Bank'', dquoted project_name]
                  @ map dquoted CONTRACTOR_SEARCH_TERMS @ [dquoted ''contractor''];
          query = py_join ''+'' terms
      in ''https://www.google.com/search?q='' @ quote_plus query)"

definition embed_field :: "string \<Rightarrow> string \<Rightarrow> bool \<Rightarrow> json" where
  "embed_field name val inline =
     JDict [(''name'', JStr name), (''value'', JStr val), (''inline'', JBool inline)]"

section \<open>Sending to the webhook\<close>

text \<open>
  The guard of every send: \<open>not DISCORD_WEBHOOK_URL or "REPLACE_ME" in DISCORD_WEBHOOK_URL\<close>.
\<close>

definition webhook_unconfigured :: "world \<Rightarrow> bool" where
  "webhook_unconfigured w = (webhook_url w = [] \<or> py_in ''REPLACE_ME'' (webhook_url w))"

text \<open>
  What every send does with its payload: post it with retries; the send succeeded when
  a response came back with a status from 200 to 299. The log lines are those of the
  caller: after the retries are exhausted, on success, and on another status.
\<close>

definition post_alert ::
  "json \<Rightarrow> string \<Rightarrow> effect \<Rightarrow> effect \<Rightarrow> string \<Rightarrow> world \<Rightarrow> bool \<times> world" where
  "post_alert payload user_agent failed_line sent_line status_fmt w =
     (case post_with_retries (webhook_url w) payload [(''User-Agent'', user_agent)]
             HTTP_TIMEOUT MAX_RETRIES w of
        (None, w1) \<Rightarrow> (False, emit failed_line w1)
      | (Some response, w1) \<Rightarrow>
          if 200 \<le> status_code response \<and> status_code response < 300
          then (True, emit sent_line w1)
          else (False, logger ERROR status_fmt
                         [JInt (status_code response), JStr (resp_text response)] w1))"

definition project_alert_payload :: "pydict \<Rightarrow> bool \<Rightarrow> json" where
  "project_alert_payload project is_update =
     (let project_name = py_or (py_get project ''project_name'') (JStr ''(No title)'');
          project_id = (if project_id_of project = [] then ''(unknown)'' else project_id_of project);
          approval_date = format_project_approval_date project;
          total_amount = format_project_total_amount project;
          project_url = get_project_url project;
          contractor_url = build_contractor_search_url (py_str project_name);
          alert_type = (if is_update then ''Project Update'' else ''New Project Plan'');
          embed = JDict
            [(''title'', JStr (alert_type @ '': '' @ py_str project_name)),
             (''url'', JStr project_url),
             (''color'', JInt 0x1ABC9C),
             (''fields'', JList
                [embed_field ''Project ID'' project_id True,
                 embed_field ''Approval Date'' approval_date True,
                 embed_field ''Total Funding Amount'' total_amount True,
                 embed_field ''World Bank Project Page''
                   (''[Open Project]('' @ project_url @ '')'') False,
                 embed_field ''Find Contractor''
                   (''[Search on Google]('' @ contractor_url @ '')'') False]),
             (''footer'', JDict [(''text'', JStr ''World Bank GIS Monitor (Projects, Nigeria)'')])]
      in JDict [(''username'', JStr ''World Bank GIS Monitor''), (''embeds'', JList [embed])])"

definition send_project_alert_embed :: "pydict \<Rightarrow> bool \<Rightarrow> world \<Rightarrow> bool \<times> world" where
  "send_project_alert_embed project is_update w =
     (if webhook_unconfigured w then
        (False, logger WARNING ''Webhook URL not configured; skipping project alert.'' [] w)
      else
        post_alert (project_alert_payload project is_update) ''WB-GIS-Monitor-Agent/1.0''
          (Log ERROR ''Project alert webhook failed after retries.'' [])
          (Log INFO ''Sent project %s alert (update=%s).''
             [JStr (if project_id_of project = [] then ''(unknown)'' else project_id_of project),
              JBool is_update])
          ''Project alert webhook returned %s: %s'' w)"

text \<open>\<open>send_discord_embed\<close> of \<open>main.py\<close>: the title is the project name as it is.\<close>

definition main_embed_payload :: "pydict \<Rightarrow> json" where
  "main_embed_payload project =
     (let project_name = py_or (py_get project ''project_name'') (JStr ''(No title)'');
          project_id = (if project_id_of project = [] then ''(unknown)'' else project_id_of project);
          approval_date = format_project_approval_date project;
          total_amount = main_format_total_amount project;
          project_url = get_project_url project;
          contractor_url = build_contractor_search_url (py_str project_name);
          embed = JDict
            [(''title'', project_name),
             (''url'', JStr project_url),
             (''color'', JInt 0x1ABC9C),
             (''fields'', JList
                [embed_field ''Project ID'' project_id True,
                 embed_field ''Approval Date'' approval_date True,
                 embed_field ''Total Funding Amount'' total_amount True,
                 embed_field ''World Bank Project Page''
                   (''[Open Project]('' @ project_url @ '')'') False,
                 embed_field ''Find Contractor''
                   (''[Search on Google]('' @ contractor_url @ '')'') False]),
             (''footer'', JDict [(''text'', JStr ''World Bank GIS Monitor (Nigeria)'')])]
      in JDict [(''username'', JStr ''World Bank GIS Monitor''), (''embeds'', JList [embed])])"

definition send_discord_embed :: "pydict \<Rightarrow> world \<Rightarrow> bool \<times> world" where
  "send_discord_embed project w =
     (if webhook_unconfigured w then
        (False, logger WARNING ''DISCORD_WEBHOOK_URL is not configured; skipping send.'' [] w)
      else
        post_alert (main_embed_payload project) ''WB-GIS-Monitor/1.0''
          (Log ERROR ''Discord webhook request failed for project %s after retries.''
             [JStr (if project_id_of project = [] then ''(unknown)'' else project_id_of project)])
          (Log INFO ''Sent Discord notification for project %s.''
             [JStr (if project_id_of project = [] then ''(unknown)'' else project_id_of project)])
          ''Discord webhook returned status %s: %s'' w)"

section \<open>The heartbeat\<close>

definition heartbeat_field :: "string \<Rightarrow> int \<Rightarrow> json" where
  "heartbeat_field name n = embed_field name (str_int n) True"

definition heartbeat_payload :: "int \<Rightarrow> int \<Rightarrow> int \<Rightarrow> int \<Rightarrow> int \<Rightarrow> int \<Rightarrow> int \<Rightarrow> int \<Rightarrow> json" where
  "heartbeat_payload total_projects total_docs total_tenders total_awards
       project_alerts document_alerts tender_alerts award_alerts =
     JDict [(''username'', JStr ''World Bank GIS Monitor''),
            (''embeds'', JList [JDict
              [(''title'', JStr ''World Bank GIS Monitor Heartbeat''),
               (''description'',
                  JStr ''System healthy: daily scan for GIS opportunities in Nigeria.''),
               (''color'', JInt 0x3498DB),
               (''fields'', JList
                  [heartbeat_field ''Projects scanned'' total_projects,
                   heartbeat_field ''Procurement plans scanned'' total_docs,
                   heartbeat_field ''Tenders scanned'' total_tenders,
                   heartbeat_field ''Awards scanned'' total_awards,
                   heartbeat_field ''Project alerts this run'' project_alerts,
                   heartbeat_field ''Procurement plan alerts this run'' document_alerts,
                   heartbeat_field ''Tender alerts this run'' tender_alerts,
                   heartbeat_field ''Award alerts this run'' award_alerts]),
               (''footer'', JDict
                  [(''text'', JStr ''Heartbeat status from World Bank GIS Monitor (Nigeria)'')])]])]"

definition send_discord_heartbeat ::
  "int \<Rightarrow> int \<Rightarrow> int \<Rightarrow> int \<Rightarrow> int \<Rightarrow> int \<Rightarrow> int \<Rightarrow> int \<Rightarrow> world \<Rightarrow> bool \<times> world" where
  "send_discord_heartbeat total_projects total_docs total_tenders total_awards
       project_alerts document_alerts tender_alerts award_alerts w =
     (if webhook_unconfigured w then
        (False, logger WARNING ''Webhook URL not configured; skipping heartbeat.'' [] w)
      else
        post_alert (heartbeat_payload total_projects total_docs total_tenders total_awards
                      project_alerts document_alerts tender_alerts award_alerts)
          ''WB-GIS-Monitor-Agent/1.0''
          (Log ERROR ''Heartbeat webhook failed after retries.'' [])
          (Log INFO ''Sent heartbeat message.'' [])
          ''Heartbeat webhook returned %s: %s'' w)"

text \<open>\<open>send_discord_heartbeat\<close> of \<open>main.py\<close>.\<close>

definition main_heartbeat_payload :: "int \<Rightarrow> int \<Rightarrow> int \<Rightarrow> json" where
  "main_heartbeat_payload total_projects matching_projects new_or_updated_projects =
     JDict [(''username'', JStr ''World Bank GIS Monitor''),
            (''embeds'', JList [JDict
              [(''title'', JStr ''World Bank GIS Monitor Heartbeat''),
               (''description'',
                  JStr ''System healthy: scanned projects for GIS opportunities in Nigeria.''),
               (''color'', JInt 0x3498DB),
               (''fields'', JList
                  [heartbeat_field ''Total Projects Scanned'' total_projects,
                   heartbeat_field ''GIS-Related Projects Found'' matching_projects,
                   heartbeat_field ''New/Updated Alerts This Run'' new_or_updated_projects]),
               (''footer'', JDict
                  [(''text'', JStr ''Heartbeat status from World Bank GIS Monitor (Nigeria)'')])]])]"

definition main_send_discord_heartbeat :: "int \<Rightarrow> int \<Rightarrow> int \<Rightarrow> world \<Rightarrow> bool \<times> world" where
  "main_send_discord_heartbeat total_projects matching_projects new_or_updated_projects w =
     (if webhook_unconfigured w then
        (False, logger WARNING ''DISCORD_WEBHOOK_URL is not configured; skipping heartbeat.'' [] w)
      else
        post_alert (main_heartbeat_payload total_projects matching_projects new_or_updated_projects)
          ''WB-GIS-Monitor/1.0''
          (Log ERROR ''Discord heartbeat request failed after retries.'' [])
          (Log INFO ''Sent Discord heartbeat message.'' [])
          ''Discord heartbeat returned status %s: %s'' w)"

section \<open>Procurement plan documents\<close>

definition WB_WDS_API_URL :: string where
  "WB_WDS_API_URL = ''https://search.worldbank.org/api/v3/wds''"

definition documents_rows :: "(string \<times> json) list \<Rightarrow> pydict list" where
  "documents_rows documents =
     concat (map (\<lambda>(key, val). if key = ''facets'' then []
                                else (case val of JDict d \<Rightarrow> [d] | _ \<Rightarrow> [])) documents)"

definition fetch_procurement_plans_for_nigeria :: "int \<Rightarrow> world \<Rightarrow> (exn + pydict list) \<times> world" where
  "fetch_procurement_plans_for_nigeria rows w =
     (case get_with_retries WB_WDS_API_URL
             [(''format'', JStr ''json''), (''rows'', JInt rows), (''country'', JStr ''Nigeria''),
              (''docty_exact'', JStr ''Procurement Plan'')]
             [(''User-Agent'', ''WB-GIS-Monitor-Agent/1.0'')] HTTP_TIMEOUT MAX_RETRIES w of
        (None, w1) \<Rightarrow>
          (Inr [], logger ERROR ''Failed to fetch procurement plan documents.'' [] w1)
      | (Some response, w1) \<Rightarrow>
          if raises_for_status response then
            (Inr [], logger ERROR ''WDS documents API error: %s'' [JInt (status_code response)] w1)
          else
            (case resp_json response of
               None \<Rightarrow>
                 (Inr [], logger ERROR ''Failed to parse JSON from WDS documents API: %s''
                            [JStr (resp_text response)] w1)
             | Some (JDict payload) \<Rightarrow>
                 (case py_or (py_get payload ''documents'') (JDict []) of
                    JDict documents \<Rightarrow>
                      (Inr (documents_rows documents),
                       logger INFO ''WDS: fetched %d procurement plan documents for Nigeria.''
                         [JInt (int (length (documents_rows documents)))] w1)
                  | _ \<Rightarrow>
                      (Inr [], logger WARNING ''Unexpected WDS 'documents' structure; skipping.'' [] w1))
             | Some _ \<Rightarrow> (Inl AttributeError, w1)))"

text \<open>The titles under \<open>docna\<close> and the sectors under \<open>sectr\<close>.\<close>

definition nested_strings :: "json \<Rightarrow> string \<Rightarrow> string list" where
  "nested_strings val key =
     (case val of
        JDict entries \<Rightarrow>
          concat (map (\<lambda>entry. case entry of
                                 JDict e \<Rightarrow> (case py_get e key of JStr s \<Rightarrow> [s] | _ \<Rightarrow> [])
                               | _ \<Rightarrow> []) (map snd entries))
      | _ \<Rightarrow> [])"

definition extract_document_text :: "pydict \<Rightarrow> string" where
  "extract_document_text doc =
     py_join [CHR '' '', CHR 0x0A]
       (strings_of [py_get doc ''display_title'']
        @ nested_strings (py_get doc ''docna'') ''docna''
        @ strings_of [py_get doc ''theme'', py_get doc ''subsc'']
        @ nested_strings (py_get doc ''sectr'') ''sector'')"

definition project_matches_keywords :: "pydict \<Rightarrow> bool" where
  "project_matches_keywords project = text_matches_keywords (extract_project_text project) KEYWORDS"

definition document_matches_keywords :: "pydict \<Rightarrow> bool" where
  "document_matches_keywords doc = text_matches_keywords (extract_document_text doc) KEYWORDS"

definition get_document_id :: "pydict \<Rightarrow> string" where
  "get_document_id doc = (case py_get doc ''id'' of JNull \<Rightarrow> [] | v \<Rightarrow> py_str v)"

definition get_document_last_update :: "pydict \<Rightarrow> string" where
  "get_document_last_update doc =
     (case py_or (py_get doc ''last_modified_date'') (JStr []) of
        JStr updated \<Rightarrow> updated
      | _ \<Rightarrow> [])"

definition get_document_urls :: "pydict \<Rightarrow> string \<times> string" where
  "get_document_urls doc =
     (let page_url = (case py_get doc ''url'' of
                        JStr u \<Rightarrow> if u \<noteq> [] then u
                                  else ''https://documents.worldbank.org/en/publication/documents-reports''
                      | _ \<Rightarrow> ''https://documents.worldbank.org/en/publication/documents-reports'');
          pdf_url = (case py_get doc ''pdfurl'' of
                       JStr u \<Rightarrow> if u \<noteq> [] then u else page_url
                     | _ \<Rightarrow> page_url)
      in (page_url, pdf_url))"

definition document_alert_payload :: "pydict \<Rightarrow> bool \<Rightarrow> json" where
  "document_alert_payload doc is_update =
     (let doc_id = (if get_document_id doc = [] then ''(unknown)'' else get_document_id doc);
          project_id = py_or (py_get doc ''projectid'') (JStr ''N/A'');
          project_name = py_or (py_get doc ''projn'') (JStr ''(Unknown project)'');
          docty = py_or (py_get doc ''docty'') (JStr ''Procurement Plan'');
          doc_date = py_or (py_get doc ''docdt'')
                       (py_or (py_get doc ''disclosure_date'')
                          (py_or (py_get doc ''datestored'') (JStr ''N/A'')));
          display_title = py_or (py_get doc ''display_title'') project_name;
          (page_url, pdf_url) = get_document_urls doc;
          alert_type = (if is_update then ''Updated Procurement Plan'' else ''New Procurement Plan'');
          embed = JDict
            [(''title'', JStr (alert_type @ '': '' @ py_str display_title)),
             (''url'', JStr pdf_url),
             (''color'', JInt 0x2ECC71),
             (''fields'', JList
                [embed_field ''Document ID'' doc_id True,
                 embed_field ''Project ID'' (py_str project_id) True,
                 embed_field ''Document Type'' (py_str docty) True,
                 embed_field ''Document Date'' (py_str doc_date) True,
                 embed_field ''Project / Document Page''
                   (''[Open in Browser]('' @ page_url @ '')'') False,
                 embed_field ''Download Procurement Plan (PDF)''
                   (''[Open PDF]('' @ pdf_url @ '')'') False]),
             (''footer'', JDict
                [(''text'', JStr ''World Bank GIS Monitor (Procurement Plans, Nigeria)'')])]
      in JDict [(''username'', JStr ''World Bank GIS Monitor''), (''embeds'', JList [embed])])"

definition send_procurement_plan_alert_embed :: "pydict \<Rightarrow> bool \<Rightarrow> world \<Rightarrow> bool \<times> world" where
  "send_procurement_plan_alert_embed doc is_update w =
     (if webhook_unconfigured w then
        (False, logger WARNING ''Webhook URL not configured; skipping document alert.'' [] w)
      else
        post_alert (document_alert_payload doc is_update) ''WB-GIS-Monitor-Agent/1.0''
          (Log ERROR ''Procurement plan alert webhook failed after retries.'' [])
          (Log INFO ''Sent procurement plan alert for document %s.''
             [JStr (if get_document_id doc = [] then ''(unknown)'' else get_document_id doc)])
          ''Procurement plan alert webhook returned %s: %s'' w)"

section \<open>Diff and notify\<close>

text \<open>
  The body of \<open>for project in matching_projects\<close> in \<open>run_monitor\<close> of
  \<open>monitor_agent.py\<close>, on the state map, the count of alerts and the world.
  \<open>previous_update\<close> is \<open>None\<close> when the id is not a key of the state.
\<close>

definition project_step :: "pydict \<Rightarrow> state_map \<Rightarrow> int \<Rightarrow> world \<Rightarrow> state_map \<times> int \<times> world" where
  "project_step project projects_state project_alerts w =
     (let project_id = project_id_of project in
      if project_id = [] then (projects_state, project_alerts, w)
      else
        (let current_update = get_project_last_update project;
             previous_update = map_of projects_state project_id in
         if previous_update \<noteq> None \<and> previous_update = Some current_update
         then (projects_state, project_alerts, w)
         else
           (let is_update = (previous_update \<noteq> None \<and> previous_update \<noteq> Some current_update);
                w1 = (case previous_update of
                        Some previous \<Rightarrow>
                          logger INFO ''Project %s updated (was %s, now %s).''
                            [JStr project_id, JStr previous, JStr current_update] w
                      | None \<Rightarrow> logger INFO ''New project %s detected.'' [JStr project_id] w);
                (sent, w2) = send_project_alert_embed project is_update w1
            in if sent
               then (dict_set projects_state project_id current_update, project_alerts + 1, w2)
               else (projects_state, project_alerts, w2))))"

fun notify_projects :: "pydict list \<Rightarrow> state_map \<Rightarrow> int \<Rightarrow> world \<Rightarrow> state_map \<times> int \<times> world" where
  "notify_projects [] projects_state project_alerts w = (projects_state, project_alerts, w)"
| "notify_projects (project # rest) projects_state project_alerts w =
     (case project_step project projects_state project_alerts w of
        (projects_state', project_alerts', w') \<Rightarrow>
          notify_projects rest projects_state' project_alerts' w')"

text \<open>The body of \<open>for doc in matching_docs\<close>.\<close>

definition doc_step :: "pydict \<Rightarrow> state_map \<Rightarrow> int \<Rightarrow> world \<Rightarrow> state_map \<times> int \<times> world" where
  "doc_step doc docs_state document_alerts w =
     (let doc_id = get_document_id doc in
      if doc_id = [] then (docs_state, document_alerts, w)
      else
        (let current_update = get_document_last_update doc;
             previous_update = map_of docs_state doc_id in
         if previous_update \<noteq> None \<and> previous_update = Some current_update
         then (docs_state, document_alerts, w)
         else
           (let is_update = (previous_update \<noteq> None \<and> previous_update \<noteq> Some current_update);
                w1 = logger INFO ''New/updated procurement plan %s detected (was %s, now %s).''
                       [JStr doc_id, (case previous_update of None \<Rightarrow> JNull | Some p \<Rightarrow> JStr p),
                        JStr current_update] w;
                (sent, w2) = send_procurement_plan_alert_embed doc is_update w1
            in if sent
               then (dict_set docs_state doc_id current_update, document_alerts + 1, w2)
               else (docs_state, document_alerts, w2))))"

fun notify_docs :: "pydict list \<Rightarrow> state_map \<Rightarrow> int \<Rightarrow> world \<Rightarrow> state_map \<times> int \<times> world" where
  "notify_docs [] docs_state document_alerts w = (docs_state, document_alerts, w)"
| "notify_docs (doc # rest) docs_state document_alerts w =
     (case doc_step doc docs_state document_alerts w of
        (docs_state', document_alerts', w') \<Rightarrow> notify_docs rest docs_state' document_alerts' w')"

text \<open>The body of \<open>for project in matching_projects\<close> in \<open>run_monitor\<close> of \<open>main.py\<close>.\<close>

definition main_project_step :: "pydict \<Rightarrow> state_map \<Rightarrow> int \<Rightarrow> world \<Rightarrow> state_map \<times> int \<times> world" where
  "main_project_step project processed_projects new_or_updated_count w =
     (let project_id = project_id_of project in
      if project_id = [] then (processed_projects, new_or_updated_count, w)
      else
        (let current_update = get_project_last_update project;
             previous_update = map_of processed_projects project_id in
         if previous_update \<noteq> None \<and> previous_update = Some current_update
         then (processed_projects, new_or_updated_count, w)
         else
           (let w1 = (case previous_update of
                        None \<Rightarrow>
                          logger INFO ''Sending notification for NEW project %s...'' [JStr project_id] w
                      | Some previous \<Rightarrow>
                          logger INFO ''Sending notification for UPDATED project %s (was %s, now %s)...''
                            [JStr project_id, JStr previous, JStr current_update] w);
                (sent, w2) = send_discord_embed project w1
            in if sent
               then (dict_set processed_projects project_id current_update, new_or_updated_count + 1, w2)
               else (processed_projects, new_or_updated_count, w2))))"

fun main_notify_projects :: "pydict list \<Rightarrow> state_map \<Rightarrow> int \<Rightarrow> world \<Rightarrow> state_map \<times> int \<times> world" where
  "main_notify_projects [] processed_projects new_or_updated_count w =
     (processed_projects, new_or_updated_count, w)"
| "main_notify_projects (project # rest) processed_projects new_or_updated_count w =
     (case main_project_step project processed_projects new_or_updated_count w of
        (processed_projects', new_or_updated_count', w') \<Rightarrow>
          main_notify_projects rest processed_projects' new_or_updated_count' w')"

section \<open>The run\<close>

text \<open>
  \<open>run_monitor\<close> of \<open>monitor_agent.py\<close>, in its blocks. A function that may raise
  gives \<open>Inl\<close> the exception, which ends the run there; the fetch of the projects may
  also never return. \<open>ENABLE_TENDERS_STREAM\<close> and \<open>ENABLE_AWARDS_STREAM\<close> are the
  constant \<open>False\<close>: of those two blocks the run only executes the \<open>else\<close> branch, a
  log line.
\<close>

definition run_monitor_projects ::
  "state_map \<Rightarrow> world \<Rightarrow> ((exn + int \<times> int) \<times> world) option" where
  "run_monitor_projects projects_state w =
     (case fetch_projects_for_nigeria 50
             (logger INFO ''Fetching active projects for Nigeria...'' [] w) of
        None \<Rightarrow> None
      | Some (Inl e, w1) \<Rightarrow> Some (Inl e, w1)
      | Some (Inr projects, w1) \<Rightarrow>
          (let total_projects = int (length projects);
               w2 = logger INFO ''Projects: %d records.'' [JInt total_projects] w1;
               matching_projects = filter project_matches_keywords projects;
               w3 = logger INFO ''Projects: %d GIS-related projects.''
                      [JInt (int (length matching_projects))] w2;
               (projects_state', project_alerts, w4) = notify_projects matching_projects projects_state 0 w3;
               w5 = save_state_map PROJECTS_STATE_FILE projects_state' w4;
               w6 = logger INFO ''Saved %d project entries to %s.''
                      [JInt (int (length projects_state')), JStr PROJECTS_STATE_FILE] w5
           in Some (Inr (total_projects, project_alerts), w6)))"

definition run_monitor_documents :: "world \<Rightarrow> (exn + int \<times> int) \<times> world" where
  "run_monitor_documents w =
     (case fetch_procurement_plans_for_nigeria 200
             (logger INFO ''Fetching procurement plan documents for Nigeria (WDS)...'' [] w) of
        (Inl e, w1) \<Rightarrow> (Inl e, w1)
      | (Inr docs, w1) \<Rightarrow>
          (let total_docs = int (length docs);
               w2 = logger INFO ''Procurement plans: %d records.'' [JInt total_docs] w1;
               matching_docs = filter document_matches_keywords docs;
               w3 = logger INFO ''Procurement plans: %d GIS-related documents.''
                      [JInt (int (length matching_docs))] w2
           in case load_state_map DOCS_STATE_FILE w3 of
                Inl e \<Rightarrow> (Inl e, w3)
              | Inr docs_state \<Rightarrow>
                  (let (docs_state', document_alerts, w4) = notify_docs matching_docs docs_state 0 w3;
                       w5 = save_state_map DOCS_STATE_FILE docs_state' w4;
                       w6 = logger INFO ''Saved %d procurement plan entries to %s.''
                              [JInt (int (length docs_state')), JStr DOCS_STATE_FILE] w5
                   in (Inr (total_docs, document_alerts), w6))))"

text \<open>\<open>monitor_state.get("last_heartbeat_date", "")\<close>.\<close>

definition last_heartbeat_date :: "state_map \<Rightarrow> string" where
  "last_heartbeat_date monitor_state =
     (case map_of monitor_state ''last_heartbeat_date'' of None \<Rightarrow> [] | Some d \<Rightarrow> d)"

definition run_monitor_heartbeat ::
  "state_map \<Rightarrow> int \<Rightarrow> int \<Rightarrow> int \<Rightarrow> int \<Rightarrow> int \<Rightarrow> int \<Rightarrow> int \<Rightarrow> int \<Rightarrow> world \<Rightarrow> world" where
  "run_monitor_heartbeat monitor_state total_projects total_docs total_tenders total_awards
       project_alerts document_alerts tender_alerts award_alerts w =
     (let today = today_iso w;
          last_heartbeat = last_heartbeat_date monitor_state
      in if today_weekday w = 0 \<and> last_heartbeat \<noteq> today then
           (let (sent, w1) = send_discord_heartbeat total_projects total_docs total_tenders
                               total_awards project_alerts document_alerts tender_alerts
                               award_alerts w
            in if sent
               then save_monitor_state (dict_set monitor_state ''last_heartbeat_date'' today) w1
               else w1)
         else w)"

definition run_monitor :: "world \<Rightarrow> ((exn + unit) \<times> world) option" where
  "run_monitor w =
     (let w0 = logger INFO ''Loading state files...'' [] w in
      case load_state_map PROJECTS_STATE_FILE w0 of
        Inl e \<Rightarrow> Some (Inl e, w0)
      | Inr projects_state \<Rightarrow>
      (case load_state_map TENDERS_STATE_FILE w0 of
        Inl e \<Rightarrow> Some (Inl e, w0)
      | Inr tenders_state \<Rightarrow>
      (case load_state_map AWARDS_STATE_FILE w0 of
        Inl e \<Rightarrow> Some (Inl e, w0)
      | Inr awards_state \<Rightarrow>
      (case load_state_map MONITOR_STATE_FILE w0 of
        Inl e \<Rightarrow> Some (Inl e, w0)
      | Inr monitor_state \<Rightarrow>
      (case run_monitor_projects projects_state
              (logger INFO ''Loaded state: %d projects, %d tenders, %d awards.''
                 [JInt (int (length projects_state)), JInt (int (length tenders_state)),
                  JInt (int (length awards_state))] w0) of
        None \<Rightarrow> None
      | Some (Inl e, w1) \<Rightarrow> Some (Inl e, w1)
      | Some (Inr (total_projects, project_alerts), w1) \<Rightarrow>
      (case run_monitor_documents w1 of
        (Inl e, w2) \<Rightarrow> Some (Inl e, w2)
      | (Inr (total_docs, document_alerts), w2) \<Rightarrow>
          (let w3 = logger INFO ''Tenders stream is disabled; skipping Finances One tenders.'' [] w2;
               w4 = logger INFO ''Awards stream is disabled; skipping Finances One awards.'' [] w3;
               w5 = run_monitor_heartbeat monitor_state total_projects total_docs 0 0
                      project_alerts document_alerts 0 0 w4;
               w6 = logger INFO
                      ''Run complete. Alerts this run -> projects: %d, tenders: %d, awards: %d.''
                      [JInt project_alerts, JInt 0, JInt 0] w5
           in Some (Inr (), w6))))))))"

text \<open>
  \<open>run_monitor\<close> of \<open>main.py\<close>. The heartbeat block stands three times in the
  source, each time with its own counts: before each of the two early \<open>return\<close>s and
  at the end.
\<close>

definition main_heartbeat :: "state_map \<Rightarrow> int \<Rightarrow> int \<Rightarrow> int \<Rightarrow> world \<Rightarrow> world" where
  "main_heartbeat state total_projects matching_count new_or_updated_count w =
     (let today = today_iso w;
          last_heartbeat = last_heartbeat_date state
      in if today_weekday w = 0 \<and> last_heartbeat \<noteq> today then
           (let (sent, w1) = main_send_discord_heartbeat total_projects matching_count
                               new_or_updated_count w
            in if sent
               then main_save_monitor_state (dict_set state ''last_heartbeat_date'' today) w1
               else w1)
         else w)"

definition main_run_monitor :: "world \<Rightarrow> ((exn + unit) \<times> world) option" where
  "main_run_monitor w =
     (let w0 = logger INFO ''Loading processed project metadata...'' [] w in
      case load_state_map PROCESSED_IDS_FILE w0 of
        Inl e \<Rightarrow> Some (Inl e, w0)
      | Inr processed_projects \<Rightarrow>
      (let w1 = logger INFO ''Loading monitor state (for heartbeat)...'' []
                  (logger INFO ''Loaded %d processed projects.''
                     [JInt (int (length processed_projects))] w0) in
       case main_load_monitor_state MONITOR_STATE_FILE w1 of
        Inl e \<Rightarrow> Some (Inl e, w1)
      | Inr state \<Rightarrow>
      (case fetch_active_projects_for_nigeria 50
              (logger INFO ''Fetching active Nigeria projects from World Bank API...'' [] w1) of
        None \<Rightarrow> None
      | Some (Inl e, w2) \<Rightarrow> Some (Inl e, w2)
      | Some (Inr projects, w2) \<Rightarrow>
          (let total_projects = int (length projects);
               w3 = logger INFO ''Retrieved %d Nigeria projects (Active).'' [JInt total_projects] w2
           in if projects = [] then
                Some (Inr (), main_heartbeat state 0 0 0
                       (logger INFO ''No active projects returned; nothing to do.'' [] w3))
              else
                (let matching_projects =
                       filter (\<lambda>project. main_project_matches_keywords project main_KEYWORDS) projects;
                     matching_count = int (length matching_projects);
                     w4 = logger INFO ''Found %d GIS-related projects in Nigeria.''
                            [JInt matching_count] w3
                 in if matching_projects = [] then
                      Some (Inr (), main_heartbeat state total_projects 0 0
                             (logger INFO ''No GIS-related projects found today.'' [] w4))
                    else
                      (let (processed_projects', new_or_updated_count, w5) =
                             main_notify_projects matching_projects processed_projects 0 w4;
                           w6 = logger INFO
                                  ''Completed notifications; %d new/updated projects were notified.''
                                  [JInt new_or_updated_count] w5;
                           w7 = save_processed_projects processed_projects' w6;
                           w8 = logger INFO ''Saved %d processed projects to %s.''
                                  [JInt (int (length processed_projects')), JStr PROCESSED_IDS_FILE] w7
                       in Some (Inr (), main_heartbeat state total_projects matching_count
                                          new_or_updated_count w8)))))))"

section \<open>Notions used to state the properties\<close>

text \<open>Reading a trace: the transport-level failures, the sleeps, the number of requests.\<close>

fun is_exception :: "attempt \<Rightarrow> bool" where
  "is_exception (RequestException _) = True"
| "is_exception (Returned _) = False"

fun sleeps_of :: "effect list \<Rightarrow> int list" where
  "sleeps_of [] = []"
| "sleeps_of (Sleep n # es) = n # sleeps_of es"
| "sleeps_of (_ # es) = sleeps_of es"

definition requests_in :: "effect list \<Rightarrow> nat" where
  "requests_in es = length (filter is_request es)"

text \<open>
  What a retry loop that starts at \<open>attempt\<close> in the world \<open>w\<close> has done when it
  returns \<open>r\<close> in the world \<open>w'\<close>.
\<close>

definition retry_contract :: "world \<Rightarrow> int \<Rightarrow> int \<Rightarrow> response option \<Rightarrow> world \<Rightarrow> bool" where
  "retry_contract w max_retries attempt r w' =
     (\<exists>es. w' = w\<lparr>trace := trace w @ es\<rparr> \<and>
        requests_in es \<le> nat (max_retries + 1 - attempt) \<and>
        (\<forall>i < requests_in es - 1. is_exception (net w (request_count w + i))) \<and>
        sleeps_of es = map (\<lambda>i. RETRY_BACKOFF_SECONDS * (attempt + int i)) [0 ..< requests_in es - 1] \<and>
        (case r of
           None \<Rightarrow> requests_in es = nat (max_retries + 1 - attempt) \<and>
                    (\<forall>i < requests_in es. is_exception (net w (request_count w + i)))
         | Some resp \<Rightarrow> 0 < requests_in es \<and>
                    net w (request_count w + (requests_in es - 1)) = Returned resp))"

text \<open>A network that times out twice and then answers 503.\<close>

definition flaky_world :: world where
  "flaky_world = \<lparr> net = (\<lambda>k. if k < 2 then RequestException ''timeout''
                                else Returned (Response 503 ''busy'' None)),
      files = (\<lambda>p. Missing), writable = (\<lambda>p. True),
      today_iso = ''2024-01-01'', today_weekday = 0,
      webhook_url = ''https://discord.test/api/webhooks/1'', trace = [] \<rparr>"

text \<open>A projects state file that is not UTF-8 text.\<close>

definition garbled_world :: world where
  "garbled_world = flaky_world\<lparr>files := (\<lambda>p. if p = PROJECTS_STATE_FILE then Not_UTF8 else Missing)\<rparr>"

text \<open>The effects of a retry loop with the given arguments.\<close>

fun get_retry_effect :: "string \<Rightarrow> (string \<times> json) list \<Rightarrow> (string \<times> string) list \<Rightarrow> int \<Rightarrow> effect \<Rightarrow> bool" where
  "get_retry_effect url params headers timeout (Http_Get u p h t) =
     (u = url \<and> p = params \<and> h = headers \<and> t = timeout)"
| "get_retry_effect url params headers timeout (Sleep n) = True"
| "get_retry_effect url params headers timeout (Log lv fmt args) =
     (fmt = ''GET %s failed after %d attempts: %s''
      \<or> fmt = ''GET %s failed on attempt %d/%d: %s; retrying...'')"
| "get_retry_effect url params headers timeout _ = False"

fun post_retry_effect :: "string \<Rightarrow> json \<Rightarrow> (string \<times> string) list \<Rightarrow> int \<Rightarrow> effect \<Rightarrow> bool" where
  "post_retry_effect url payload headers timeout (Http_Post u p h t) =
     (u = url \<and> p = payload \<and> h = headers \<and> t = timeout)"
| "post_retry_effect url payload headers timeout (Sleep n) = True"
| "post_retry_effect url payload headers timeout (Log lv fmt args) =
     (fmt = ''POST %s failed after %d attempts: %s''
      \<or> fmt = ''POST %s failed on attempt %d/%d: %s; retrying...'')"
| "post_retry_effect url payload headers timeout _ = False"

text \<open>The page function iterated over \<open>n\<close> pages that all ask for a next page.\<close>

fun pages_ok ::
  "(int \<Rightarrow> pydict list \<Rightarrow> int \<Rightarrow> world \<Rightarrow> page_result) \<Rightarrow> nat \<Rightarrow> int \<Rightarrow> pydict list \<Rightarrow> int \<Rightarrow> world
     \<Rightarrow> (pydict list \<times> int \<times> world) option" where
  "pages_ok fetch_page 0 rows_per_page all_projects page w = Some (all_projects, page, w)"
| "pages_ok fetch_page (Suc n) rows_per_page all_projects page w =
     (case fetch_page rows_per_page all_projects page w of
        Next_Page all_projects' w' \<Rightarrow> pages_ok fetch_page n rows_per_page all_projects' (page + 1) w'
      | Done r \<Rightarrow> None)"

text \<open>
  The cases in which a round of a fetch is left by \<open>break\<close> with a log line: the
  retries are exhausted, the response has an HTTP error status, its body is not JSON,
  or the body is an object with readable \<open>total\<close> and \<open>rows\<close> whose
  \<open>projects\<close> is not an object. A body of another shape is not among them: on it
  the round raises.
\<close>

definition page_breaks ::
  "(string \<times> json) list \<Rightarrow> (string \<times> string) list \<Rightarrow> int \<Rightarrow> world \<Rightarrow> bool" where
  "page_breaks params headers rows_per_page w =
     (case get_with_retries WB_PROJECTS_API_URL params headers HTTP_TIMEOUT MAX_RETRIES w of
        (None, w1) \<Rightarrow> True
      | (Some response, w1) \<Rightarrow>
          raises_for_status response \<or>
          (case resp_json response of
             None \<Rightarrow> True
           | Some (JDict payload) \<Rightarrow>
               (case py_int (py_get_default payload ''total'' (JInt 0)) of
                  Inl e \<Rightarrow> False
                | Inr total_n \<Rightarrow>
               (case py_int (py_get_default payload ''rows'' (JInt rows_per_page)) of
                  Inl e \<Rightarrow> False
                | Inr rows \<Rightarrow>
               (case py_or (py_get payload ''projects'') (JDict []) of
                  JDict projects \<Rightarrow> False
                | _ \<Rightarrow> True)))
           | Some _ \<Rightarrow> False))"

text \<open>Two pages: the first has a project of Nigeria and one of Kenya, the second is a 500.\<close>

definition project_ng :: pydict where
  "project_ng = [(''id'', JStr ''P100''), (''project_name'', JStr ''Flood Risk Mapping''),
                 (''countrycode'', JList [JStr ''NG'']), (''p2a_updated_date'', JStr ''2024-01-01'')]"

definition project_ke :: pydict where
  "project_ke = [(''id'', JStr ''P200''), (''project_name'', JStr ''Roads''),
                 (''countrycode'', JList [JStr ''KE''])]"

definition page_one :: response where
  "page_one = Response 200 ''{...}''
     (Some (JDict [(''total'', JStr ''120''), (''rows'', JInt 50),
                   (''projects'', JDict [(''P100'', JDict project_ng), (''P200'', JDict project_ke)])]))"

definition two_page_world :: world where
  "two_page_world = flaky_world\<lparr>net := (\<lambda>k. if k = 0 then Returned page_one
                                           else Returned (Response 500 ''error'' None))\<rparr>"

text \<open>
  The effects that a step adds, and a step that only adds effects for which \<open>Q\<close>
  holds: it leaves the network, the clock and the webhook as they are, and a file
  differs only when the step wrote it.
\<close>

definition news :: "world \<Rightarrow> world \<Rightarrow> effect list" where
  "news w w' = drop (length (trace w)) (trace w')"

definition extends :: "(effect \<Rightarrow> bool) \<Rightarrow> world \<Rightarrow> world \<Rightarrow> bool" where
  "extends Q w w' \<longleftrightarrow>
     (\<exists>es. trace w' = trace w @ es \<and> list_all Q es \<and>
           (\<forall>p. files w' p = files w p \<or> (\<exists>j. Write_File p j \<in> set es)))
     \<and> net w' = net w \<and> writable w' = writable w \<and> today_iso w' = today_iso w
     \<and> today_weekday w' = today_weekday w \<and> webhook_url w' = webhook_url w"

text \<open>The effects of one send, and what its last effect tells.\<close>

definition send_effect :: "string \<Rightarrow> json \<Rightarrow> string \<Rightarrow> effect \<Rightarrow> effect \<Rightarrow> string \<Rightarrow> effect \<Rightarrow> bool" where
  "send_effect url payload user_agent failed_line sent_line status_fmt e \<longleftrightarrow>
     post_retry_effect url payload [(''User-Agent'', user_agent)] HTTP_TIMEOUT e
     \<or> e = failed_line \<or> e = sent_line
     \<or> (\<exists>st tx. e = Log ERROR status_fmt [JInt st, JStr tx])"

text \<open>The world after the line that the loop logs before it sends.\<close>

definition project_announced :: "pydict \<Rightarrow> state_map \<Rightarrow> world \<Rightarrow> world" where
  "project_announced project projects_state w =
     (case map_of projects_state (project_id_of project) of
        Some previous \<Rightarrow>
          logger INFO ''Project %s updated (was %s, now %s).''
            [JStr (project_id_of project), JStr previous, JStr (get_project_last_update project)] w
      | None \<Rightarrow> logger INFO ''New project %s detected.'' [JStr (project_id_of project)] w)"

definition main_project_announced :: "pydict \<Rightarrow> state_map \<Rightarrow> world \<Rightarrow> world" where
  "main_project_announced project processed_projects w =
     (case map_of processed_projects (project_id_of project) of
        None \<Rightarrow>
          logger INFO ''Sending notification for NEW project %s...'' [JStr (project_id_of project)] w
      | Some previous \<Rightarrow>
          logger INFO ''Sending notification for UPDATED project %s (was %s, now %s)...''
            [JStr (project_id_of project), JStr previous, JStr (get_project_last_update project)] w)"

text \<open>The title of the embed of a payload.\<close>

definition alert_title :: "json \<Rightarrow> json option" where
  "alert_title payload =
     (case payload of
        JDict kvs \<Rightarrow>
          (case map_of kvs ''embeds'' of
             Some (JList (JDict items # rest)) \<Rightarrow> map_of items ''title''
           | _ \<Rightarrow> None)
      | _ \<Rightarrow> None)"

text \<open>
  The same first page, followed by a page whose body is the JSON array \<open>[]\<close>, and
  followed by a page whose body is the object \<open>{"total": "n/a"}\<close>, each with
  status 200.
\<close>

definition array_body_world :: world where
  "array_body_world = flaky_world\<lparr>net := (\<lambda>k. if k = 0 then Returned page_one
                                           else Returned (Response 200 ''[]'' (Some (JList []))))\<rparr>"

definition bad_total_world :: world where
  "bad_total_world = flaky_world\<lparr>net := (\<lambda>k. if k = 0 then Returned page_one
       else Returned (Response 200 ''{...}'' (Some (JDict [(''total'', JStr ''n/a'')]))))\<rparr>"

section \<open>The contract of the retrying requests\<close>

declare get_with_retries_loop.simps [simp del]

declare post_with_retries_loop.simps [simp del]

lemma sleeps_of_append: "sleeps_of (xs @ ys) = sleeps_of xs @ sleeps_of ys"
  by (induction xs rule: sleeps_of.induct) auto

lemma requests_in_append: "requests_in (xs @ ys) = requests_in xs + requests_in ys"
  by (simp add: requests_in_def)

lemma get_loop_post:
  "get_with_retries_loop url params headers timeout max_retries attempt w = (r, w')
     \<Longrightarrow> retry_contract w max_retries attempt r w'"
proof (induction url params headers timeout max_retries attempt w arbitrary: r w'
        rule: get_with_retries_loop.induct)
  case (1 url params headers timeout max_retries attempt w)
  show ?case
  proof (cases "attempt \<le> max_retries")
    case False
    with "1.prems" have "r = None" "w' = w"
      by (simp_all add: get_with_retries_loop.simps)
    with False show ?thesis
      by (auto simp: retry_contract_def requests_in_def intro!: exI[of _ "[]"])
  next
    case le: True
    define w1 where "w1 = emit (Http_Get url params headers timeout) w"
    have rq: "requests_get url params headers timeout w = (net w (request_count w), w1)"
      by (simp add: requests_get_def w1_def)
    show ?thesis
    proof (cases "net w (request_count w)")
      case (Returned resp)
      with "1.prems" le rq have "r = Some resp" "w' = w1"
        by (simp_all add: get_with_retries_loop.simps)
      then show ?thesis using Returned le
        by (auto simp: retry_contract_def requests_in_def w1_def emit_def intro!: exI[of _ "[Http_Get url params headers timeout]"])
    next
      case (RequestException exc)
      show ?thesis
      proof (cases "attempt = max_retries")
        case True
        with "1.prems" le rq RequestException
        have "r = None" "w' = logger ERROR ''GET %s failed after %d attempts: %s''
                        [JStr url, JInt attempt, JStr exc] w1"
          by (simp_all add: get_with_retries_loop.simps)
        then show ?thesis using RequestException True le
          by (auto simp: retry_contract_def requests_in_def w1_def emit_def logger_def
              intro!: exI[of _ "[Http_Get url params headers timeout, Log ERROR ''GET %s failed after %d attempts: %s''
                        [JStr url, JInt attempt, JStr exc]]"])
      next
        case False
        define w2 where "w2 = sleep (RETRY_BACKOFF_SECONDS * attempt)
                    (logger WARNING ''GET %s failed on attempt %d/%d: %s; retrying...''
                       [JStr url, JInt attempt, JInt max_retries, JStr exc] w1)"
        from "1.prems" le rq RequestException False
        have rec: "get_with_retries_loop url params headers timeout max_retries (attempt + 1) w2 = (r, w')"
          by (simp add: get_with_retries_loop.simps w2_def)
        have IH: "retry_contract w2 max_retries (attempt + 1) r w'"
          using "1.IH"[OF le rq[symmetric] RequestException False rec[unfolded w2_def]]
          by (simp add: w2_def)
        have rc2: "request_count w2 = Suc (request_count w)" "net w2 = net w"
          by (simp_all add: w2_def w1_def sleep_def logger_def emit_def request_count_def)
        obtain pre where pre: "trace w2 = trace w @ pre" "requests_in pre = 1"
           "sleeps_of pre = [RETRY_BACKOFF_SECONDS * attempt]" "w2 = w\<lparr>trace := trace w @ pre\<rparr>"
          by (simp add: w2_def w1_def sleep_def logger_def emit_def requests_in_def)
        from IH obtain es where es: "w' = w2\<lparr>trace := trace w2 @ es\<rparr>"
          "requests_in es \<le> nat (max_retries + 1 - (attempt + 1))"
          "\<forall>i < requests_in es - 1. is_exception (net w2 (request_count w2 + i))"
          "sleeps_of es = map (\<lambda>i. RETRY_BACKOFF_SECONDS * (attempt + 1 + int i)) [0 ..< requests_in es - 1]"
          "(case r of
           None \<Rightarrow> requests_in es = nat (max_retries + 1 - (attempt + 1)) \<and>
                    (\<forall>i < requests_in es. is_exception (net w2 (request_count w2 + i)))
         | Some resp \<Rightarrow> 0 < requests_in es \<and>
                    net w2 (request_count w2 + (requests_in es - 1)) = Returned resp)"
          unfolding retry_contract_def by blast
        have n1: "requests_in (pre @ es) = Suc (requests_in es)"
          by (simp add: requests_in_append pre)
        have w': "w' = w\<lparr>trace := trace w @ (pre @ es)\<rparr>"
          using es(1) pre(4) by simp
        have bound: "requests_in (pre @ es) \<le> nat (max_retries + 1 - attempt)"
          using es(2) le False n1 by linarith
        have exc: "\<forall>i < requests_in (pre @ es) - 1. is_exception (net w (request_count w + i))"
        proof (intro allI impI)
          fix i assume i: "i < requests_in (pre @ es) - 1"
          show "is_exception (net w (request_count w + i))"
          proof (cases i)
            case 0 then show ?thesis using RequestException by simp
          next
            case (Suc j)
            with i n1 have "j < requests_in es - 1" by simp
            with es(3) rc2 Suc show ?thesis by simp
          qed
        qed
        have sl: "sleeps_of (pre @ es) =
           map (\<lambda>i. RETRY_BACKOFF_SECONDS * (attempt + int i)) [0 ..< requests_in (pre @ es) - 1]"
        proof -
          have pos: "0 < requests_in es" using es(5) es(2) le False
            by (cases r) auto
          have "[0 ..< requests_in es] = 0 # map Suc [0 ..< requests_in es - 1]"
            using pos by (metis One_nat_def Suc_pred' map_Suc_upt upt_conv_Cons)
          then show ?thesis
            by (simp add: sleeps_of_append pre es(4) n1 o_def add.assoc add.commute)
        qed
        have res: "(case r of
           None \<Rightarrow> requests_in (pre @ es) = nat (max_retries + 1 - attempt) \<and>
                    (\<forall>i < requests_in (pre @ es). is_exception (net w (request_count w + i)))
         | Some resp \<Rightarrow> 0 < requests_in (pre @ es) \<and>
                    net w (request_count w + (requests_in (pre @ es) - 1)) = Returned resp)"
        proof (cases r)
          case None
          with es(5) have a: "requests_in es = nat (max_retries + 1 - (attempt + 1))"
            and b: "\<forall>i < requests_in es. is_exception (net w2 (request_count w2 + i))" by simp_all
          have "requests_in (pre @ es) = nat (max_retries + 1 - attempt)"
            using a le False n1 by linarith
          moreover have "\<forall>i < requests_in (pre @ es). is_exception (net w (request_count w + i))"
          proof (intro allI impI)
            fix i assume i: "i < requests_in (pre @ es)"
            show "is_exception (net w (request_count w + i))"
            proof (cases i)
              case 0 then show ?thesis using RequestException by simp
            next
              case (Suc j)
              with i n1 have "j < requests_in es" by simp
              with b rc2 Suc show ?thesis by simp
            qed
          qed
          ultimately show ?thesis using None by simp
        next
          case (Some resp)
          with es(5) have a: "0 < requests_in es"
            and b: "net w2 (request_count w2 + (requests_in es - 1)) = Returned resp" by auto
          from a have "request_count w2 + (requests_in es - 1) = request_count w + (requests_in (pre @ es) - 1)"
            using rc2 n1 by simp
          with b rc2 Some n1 show ?thesis by simp
        qed
        show ?thesis unfolding retry_contract_def
          using w' bound exc sl res by blast
      qed
    qed
  qed
qed

lemma post_loop_post:
  "post_with_retries_loop url payload headers timeout max_retries attempt w = (r, w')
     \<Longrightarrow> retry_contract w max_retries attempt r w'"
proof (induction url payload headers timeout max_retries attempt w arbitrary: r w'
        rule: post_with_retries_loop.induct)
  case (1 url payload headers timeout max_retries attempt w)
  show ?case
  proof (cases "attempt \<le> max_retries")
    case False
    with "1.prems" have "r = None" "w' = w"
      by (simp_all add: post_with_retries_loop.simps)
    with False show ?thesis
      by (auto simp: retry_contract_def requests_in_def intro!: exI[of _ "[]"])
  next
    case le: True
    define w1 where "w1 = emit (Http_Post url payload headers timeout) w"
    have rq: "requests_post url payload headers timeout w = (net w (request_count w), w1)"
      by (simp add: requests_post_def w1_def)
    show ?thesis
    proof (cases "net w (request_count w)")
      case (Returned resp)
      with "1.prems" le rq have "r = Some resp" "w' = w1"
        by (simp_all add: post_with_retries_loop.simps)
      then show ?thesis using Returned le
        by (auto simp: retry_contract_def requests_in_def w1_def emit_def intro!: exI[of _ "[Http_Post url payload headers timeout]"])
    next
      case (RequestException exc)
      show ?thesis
      proof (cases "attempt = max_retries")
        case True
        with "1.prems" le rq RequestException
        have "r = None" "w' = logger ERROR ''POST %s failed after %d attempts: %s''
                        [JStr url, JInt attempt, JStr exc] w1"
          by (simp_all add: post_with_retries_loop.simps)
        then show ?thesis using RequestException True le
          by (auto simp: retry_contract_def requests_in_def w1_def emit_def logger_def
              intro!: exI[of _ "[Http_Post url payload headers timeout, Log ERROR ''POST %s failed after %d attempts: %s''
                        [JStr url, JInt attempt, JStr exc]]"])
      next
        case False
        define w2 where "w2 = sleep (RETRY_BACKOFF_SECONDS * attempt)
                    (logger WARNING ''POST %s failed on attempt %d/%d: %s; retrying...''
                       [JStr url, JInt attempt, JInt max_retries, JStr exc] w1)"
        from "1.prems" le rq RequestException False
        have rec: "post_with_retries_loop url payload headers timeout max_retries (attempt + 1) w2 = (r, w')"
          by (simp add: post_with_retries_loop.simps w2_def)
        have IH: "retry_contract w2 max_retries (attempt + 1) r w'"
          using "1.IH"[OF le rq[symmetric] RequestException False rec[unfolded w2_def]]
          by (simp add: w2_def)
        have rc2: "request_count w2 = Suc (request_count w)" "net w2 = net w"
          by (simp_all add: w2_def w1_def sleep_def logger_def emit_def request_count_def)
        obtain pre where pre: "trace w2 = trace w @ pre" "requests_in pre = 1"
           "sleeps_of pre = [RETRY_BACKOFF_SECONDS * attempt]" "w2 = w\<lparr>trace := trace w @ pre\<rparr>"
          by (simp add: w2_def w1_def sleep_def logger_def emit_def requests_in_def)
        from IH obtain es where es: "w' = w2\<lparr>trace := trace w2 @ es\<rparr>"
          "requests_in es \<le> nat (max_retries + 1 - (attempt + 1))"
          "\<forall>i < requests_in es - 1. is_exception (net w2 (request_count w2 + i))"
          "sleeps_of es = map (\<lambda>i. RETRY_BACKOFF_SECONDS * (attempt + 1 + int i)) [0 ..< requests_in es - 1]"
          "(case r of
           None \<Rightarrow> requests_in es = nat (max_retries + 1 - (attempt + 1)) \<and>
                    (\<forall>i < requests_in es. is_exception (net w2 (request_count w2 + i)))
         | Some resp \<Rightarrow> 0 < requests_in es \<and>
                    net w2 (request_count w2 + (requests_in es - 1)) = Returned resp)"
          unfolding retry_contract_def by blast
        have n1: "requests_in (pre @ es) = Suc (requests_in es)"
          by (simp add: requests_in_append pre)
        have w': "w' = w\<lparr>trace := trace w @ (pre @ es)\<rparr>"
          using es(1) pre(4) by simp
        have bound: "requests_in (pre @ es) \<le> nat (max_retries + 1 - attempt)"
          using es(2) le False n1 by linarith
        have exc: "\<forall>i < requests_in (pre @ es) - 1. is_exception (net w (request_count w + i))"
        proof (intro allI impI)
          fix i assume i: "i < requests_in (pre @ es) - 1"
          show "is_exception (net w (request_count w + i))"
          proof (cases i)
            case 0 then show ?thesis using RequestException by simp
          next
            case (Suc j)
            with i n1 have "j < requests_in es - 1" by simp
            with es(3) rc2 Suc show ?thesis by simp
          qed
        qed
        have sl: "sleeps_of (pre @ es) =
           map (\<lambda>i. RETRY_BACKOFF_SECONDS * (attempt + int i)) [0 ..< requests_in (pre @ es) - 1]"
        proof -
          have pos: "0 < requests_in es" using es(5) es(2) le False
            by (cases r) auto
          have "[0 ..< requests_in es] = 0 # map Suc [0 ..< requests_in es - 1]"
            using pos by (metis One_nat_def Suc_pred' map_Suc_upt upt_conv_Cons)
          then show ?thesis
            by (simp add: sleeps_of_append pre es(4) n1 o_def add.assoc add.commute)
        qed
        have res: "(case r of
           None \<Rightarrow> requests_in (pre @ es) = nat (max_retries + 1 - attempt) \<and>
                    (\<forall>i < requests_in (pre @ es). is_exception (net w (request_count w + i)))
         | Some resp \<Rightarrow> 0 < requests_in (pre @ es) \<and>
                    net w (request_count w + (requests_in (pre @ es) - 1)) = Returned resp)"
        proof (cases r)
          case None
          with es(5) have a: "requests_in es = nat (max_retries + 1 - (attempt + 1))"
            and b: "\<forall>i < requests_in es. is_exception (net w2 (request_count w2 + i))" by simp_all
          have "requests_in (pre @ es) = nat (max_retries + 1 - attempt)"
            using a le False n1 by linarith
          moreover have "\<forall>i < requests_in (pre @ es). is_exception (net w (request_count w + i))"
          proof (intro allI impI)
            fix i assume i: "i < requests_in (pre @ es)"
            show "is_exception (net w (request_count w + i))"
            proof (cases i)
              case 0 then show ?thesis using RequestException by simp
            next
              case (Suc j)
              with i n1 have "j < requests_in es" by simp
              with b rc2 Suc show ?thesis by simp
            qed
          qed
          ultimately show ?thesis using None by simp
        next
          case (Some resp)
          with es(5) have a: "0 < requests_in es"
            and b: "net w2 (request_count w2 + (requests_in es - 1)) = Returned resp" by auto
          from a have "request_count w2 + (requests_in es - 1) = request_count w + (requests_in (pre @ es) - 1)"
            using rc2 n1 by simp
          with b rc2 Some n1 show ?thesis by simp
        qed
        show ?thesis unfolding retry_contract_def
          using w' bound exc sl res by blast
      qed
    qed
  qed
qed


lemma retry_contract_top:
  assumes "retry_contract w max_retries 1 r w'"
  shows "\<exists>es. w' = w\<lparr>trace := trace w @ es\<rparr> \<and>
     requests_in es \<le> nat max_retries \<and>
     (r = None \<longleftrightarrow> requests_in es = nat max_retries \<and>
        (\<forall>i < nat max_retries. is_exception (net w (request_count w + i)))) \<and>
     (\<forall>i resp. i < nat max_retries \<and> (\<forall>j < i. is_exception (net w (request_count w + j))) \<and>
         net w (request_count w + i) = Returned resp
         \<longrightarrow> r = Some resp \<and> requests_in es = i + 1) \<and>
     sleeps_of es = map (\<lambda>a. RETRY_BACKOFF_SECONDS * int a) [1 ..< requests_in es]"
proof -
  have m: "max_retries + 1 - 1 = max_retries" by simp
  from assms[unfolded retry_contract_def m] obtain es where es: "w' = w\<lparr>trace := trace w @ es\<rparr>"
    "requests_in es \<le> nat max_retries"
    "\<forall>i < requests_in es - 1. is_exception (net w (request_count w + i))"
    "sleeps_of es = map (\<lambda>i. RETRY_BACKOFF_SECONDS * (1 + int i)) [0 ..< requests_in es - 1]"
    "(case r of
           None \<Rightarrow> requests_in es = nat max_retries \<and>
                    (\<forall>i < requests_in es. is_exception (net w (request_count w + i)))
         | Some resp \<Rightarrow> 0 < requests_in es \<and>
                    net w (request_count w + (requests_in es - 1)) = Returned resp)"
    by blast
  let ?n = "requests_in es"
  have none_iff: "r = None \<longleftrightarrow> ?n = nat max_retries \<and>
        (\<forall>i < nat max_retries. is_exception (net w (request_count w + i)))"
  proof (cases r)
    case None with es(5) show ?thesis by simp
  next
    case (Some resp)
    with es(5) have "0 < ?n" "net w (request_count w + (?n - 1)) = Returned resp" by auto
    then have "?n - 1 < nat max_retries" "\<not> is_exception (net w (request_count w + (?n - 1)))"
      using es(2) by auto
    with Some show ?thesis by blast
  qed
  have first: "r = Some resp \<and> ?n = i + 1"
    if i: "i < nat max_retries" and before: "\<forall>j < i. is_exception (net w (request_count w + j))"
      and here: "net w (request_count w + i) = Returned resp" for i resp
  proof (cases r)
    case None
    with none_iff i here show ?thesis by force
  next
    case (Some resp')
    with es(5) have pos: "0 < ?n" and last: "net w (request_count w + (?n - 1)) = Returned resp'" by auto
    have "\<not> i < ?n - 1" using es(3) here by force
    moreover have "\<not> ?n - 1 < i" using before last by force
    ultimately have "i = ?n - 1" by simp
    with pos last here Some show ?thesis by simp
  qed
  have sl: "sleeps_of es = map (\<lambda>a. RETRY_BACKOFF_SECONDS * int a) [1 ..< ?n]"
  proof -
    have "map (\<lambda>i. RETRY_BACKOFF_SECONDS * (1 + int i)) [0 ..< ?n - 1]
        = map (\<lambda>a. RETRY_BACKOFF_SECONDS * int a) (map Suc [0 ..< ?n - 1])"
      by (simp add: o_def add.commute)
    also have "map Suc [0 ..< ?n - 1] = [1 ..< ?n]"
      by (cases ?n) (simp_all add: map_Suc_upt)
    finally show ?thesis using es(4) by simp
  qed
  from es(1) es(2) none_iff first sl show ?thesis by blast
qed

text \<open>
  Claim C4. \<open>get_with_retries\<close> and \<open>post_with_retries\<close>, called with the default
  \<open>MAX_RETRIES\<close>, only append effects to the trace; among them are at most 3 requests;
  the result is \<open>None\<close> exactly when 3 requests were made and every one of them raised a
  transport-level exception; the first response that is received, whatever its status
  code, is the result, and no request follows it; and the calls of \<open>sleep\<close> are
  \<open>RETRY_BACKOFF_SECONDS * attempt\<close> for the attempts \<open>1, 2, ...\<close> that were followed
  by another one.
\<close>

theorem http_retries_contract:
  assumes "get_with_retries url params headers timeout MAX_RETRIES w = (r, w')
         \<or> post_with_retries url payload headers timeout MAX_RETRIES w = (r, w')"
  shows "\<exists>es. w' = w\<lparr>trace := trace w @ es\<rparr> \<and>
     requests_in es \<le> 3 \<and>
     (r = None \<longleftrightarrow> requests_in es = 3 \<and>
        (\<forall>i < 3. is_exception (net w (request_count w + i)))) \<and>
     (\<forall>i resp. i < 3 \<and> (\<forall>j < i. is_exception (net w (request_count w + j))) \<and>
         net w (request_count w + i) = Returned resp
         \<longrightarrow> r = Some resp \<and> requests_in es = i + 1) \<and>
     sleeps_of es = map (\<lambda>a. RETRY_BACKOFF_SECONDS * int a) [1 ..< requests_in es]"
proof -
  have "retry_contract w MAX_RETRIES 1 r w'"
    using assms get_loop_post post_loop_post
    unfolding get_with_retries_def post_with_retries_def by blast
  from retry_contract_top[OF this] show ?thesis
    by (simp add: MAX_RETRIES_def)
qed

lemma flaky_get:
  "get_with_retries ''u'' [] [] 15 MAX_RETRIES flaky_world =
     (Some (Response 503 ''busy'' None),
      flaky_world\<lparr>trace := [Http_Get ''u'' [] [] 15,
         Log WARNING ''GET %s failed on attempt %d/%d: %s; retrying...'' [JStr ''u'', JInt 1, JInt 3, JStr ''timeout''],
         Sleep 3,
         Http_Get ''u'' [] [] 15,
         Log WARNING ''GET %s failed on attempt %d/%d: %s; retrying...'' [JStr ''u'', JInt 2, JInt 3, JStr ''timeout''],
         Sleep 6,
         Http_Get ''u'' [] [] 15]\<rparr>)"
  by (simp add: get_with_retries_def get_with_retries_loop.simps requests_get_def MAX_RETRIES_def
      RETRY_BACKOFF_SECONDS_def flaky_world_def request_count_def emit_def logger_def sleep_def)


theorem http_retries_contract_witness:
  "get_with_retries ''u'' [] [] 15 MAX_RETRIES flaky_world =
     (Some (Response 503 ''busy'' None),
      flaky_world\<lparr>trace := [Http_Get ''u'' [] [] 15,
         Log WARNING ''GET %s failed on attempt %d/%d: %s; retrying...'' [JStr ''u'', JInt 1, JInt 3, JStr ''timeout''],
         Sleep 3,
         Http_Get ''u'' [] [] 15,
         Log WARNING ''GET %s failed on attempt %d/%d: %s; retrying...'' [JStr ''u'', JInt 2, JInt 3, JStr ''timeout''],
         Sleep 6,
         Http_Get ''u'' [] [] 15]\<rparr>)
   \<and> (\<exists>es. flaky_world\<lparr>trace := [Http_Get ''u'' [] [] 15,
         Log WARNING ''GET %s failed on attempt %d/%d: %s; retrying...'' [JStr ''u'', JInt 1, JInt 3, JStr ''timeout''],
         Sleep 3,
         Http_Get ''u'' [] [] 15,
         Log WARNING ''GET %s failed on attempt %d/%d: %s; retrying...'' [JStr ''u'', JInt 2, JInt 3, JStr ''timeout''],
         Sleep 6,
         Http_Get ''u'' [] [] 15]\<rparr> = flaky_world\<lparr>trace := trace flaky_world @ es\<rparr> \<and>
       requests_in es \<le> 3 \<and>
       sleeps_of es = map (\<lambda>a. RETRY_BACKOFF_SECONDS * int a) [1 ..< requests_in es])"
  using http_retries_contract [where payload = JNull, OF disjI1 [OF flaky_get]] flaky_get
  by blast

section \<open>The keyword matcher\<close>

lemma py_startswith_iff: "py_startswith xs s \<longleftrightarrow> (\<exists>ss. s = xs @ ss)"
  by (induction xs s rule: py_startswith.induct) auto

lemma py_in_iff: "py_in sub s \<longleftrightarrow> (\<exists>ps ss. s = ps @ sub @ ss)"
proof (induction s)
  case Nil
  then show ?case by auto
next
  case (Cons c cs)
  show ?case
  proof
    assume "py_in sub (c # cs)"
    then consider "py_startswith sub (c # cs)" | "py_in sub cs" by auto
    then show "\<exists>ps ss. c # cs = ps @ sub @ ss"
    proof cases
      case 1
      then obtain ss where "c # cs = sub @ ss" by (auto simp: py_startswith_iff)
      then have "c # cs = [] @ sub @ ss" by simp
      then show ?thesis by blast
    next
      case 2
      with Cons.IH obtain ps ss where "cs = ps @ sub @ ss" by blast
      then have "c # cs = (c # ps) @ sub @ ss" by simp
      then show ?thesis by blast
    qed
  next
    assume "\<exists>ps ss. c # cs = ps @ sub @ ss"
    then obtain ps ss where eq: "c # cs = ps @ sub @ ss" by blast
    show "py_in sub (c # cs)"
    proof (cases ps)
      case Nil
      with eq have "py_startswith sub (c # cs)" by (auto simp: py_startswith_iff)
      then show ?thesis by simp
    next
      case (Cons p ps')
      with eq have "cs = ps' @ sub @ ss" by simp
      with Cons.IH have "py_in sub cs" by blast
      then show ?thesis by simp
    qed
  qed
qed

lemma keywords_loop_iff:
  "keywords_loop lower_text kws \<longleftrightarrow> (\<exists>kw \<in> set kws. py_in (py_lower kw) lower_text)"
  by (induction kws) auto

lemma matches_logistics: "text_matches_keywords ''the logistics team'' [''GIS'']"
  by code_simp

lemma matches_gis_tools: "text_matches_keywords ''this project uses gis tools'' [''GIS'']"
  by code_simp

lemma no_match_relevant: "\<not> text_matches_keywords ''no relevant terms'' [''GIS'']"
  by code_simp

text \<open>
  Claim C6. The matcher is true exactly when the text is not empty and some keyword,
  lower-cased, occurs somewhere in the lower-cased text (no word boundary is asked for);
  on the empty text it is false for every keyword list; the matcher of \<open>main.py\<close>
  decides the same on the text extracted from the project; and the three examples of
  the specification come out as stated.
\<close>

theorem text_matches_keywords_substring:
  "(text_matches_keywords text kws \<longleftrightarrow>
      text \<noteq> [] \<and> (\<exists>kw \<in> set kws. \<exists>ps ss. py_lower text = ps @ py_lower kw @ ss))
   \<and> \<not> text_matches_keywords [] kws
   \<and> main_project_matches_keywords project kws
       = text_matches_keywords (extract_project_text project) kws
   \<and> text_matches_keywords ''the logistics team'' [''GIS'']
   \<and> text_matches_keywords ''this project uses gis tools'' [''GIS'']
   \<and> \<not> text_matches_keywords ''no relevant terms'' [''GIS'']"
proof -
  have "text_matches_keywords text kws \<longleftrightarrow>
      text \<noteq> [] \<and> (\<exists>kw \<in> set kws. \<exists>ps ss. py_lower text = ps @ py_lower kw @ ss)"
    by (simp add: text_matches_keywords_def keywords_loop_iff py_in_iff)
  moreover have "\<not> text_matches_keywords [] kws"
    by (simp add: text_matches_keywords_def)
  moreover have "main_project_matches_keywords project kws
       = text_matches_keywords (extract_project_text project) kws"
    by (simp add: main_project_matches_keywords_def text_matches_keywords_def Let_def)
  ultimately show ?thesis
    using matches_logistics matches_gis_tools no_match_relevant by blast
qed

theorem text_matches_keywords_substring_witness:
  "''Flood MAPPING study'' \<noteq> [] \<and> ''Mapping'' \<in> set [''GIS'', ''Mapping'']
   \<and> py_lower ''Flood MAPPING study'' = ''flood '' @ py_lower ''Mapping'' @ '' study''
   \<and> text_matches_keywords ''Flood MAPPING study'' [''GIS'', ''Mapping'']"
proof -
  have l: "py_lower ''Flood MAPPING study'' = ''flood '' @ py_lower ''Mapping'' @ '' study''"
    by code_simp
  have m: "''Mapping'' \<in> set [''GIS'', ''Mapping'']" by simp
  from l have "\<exists>ps ss. py_lower ''Flood MAPPING study'' = ps @ py_lower ''Mapping'' @ ss"
    by (intro exI)
  with m have "\<exists>kw \<in> set [''GIS'', ''Mapping'']. \<exists>ps ss.
          py_lower ''Flood MAPPING study'' = ps @ py_lower kw @ ss"
    by (rule bexI [rotated])
  then have "text_matches_keywords ''Flood MAPPING study'' [''GIS'', ''Mapping'']"
    using text_matches_keywords_substring [of "''Flood MAPPING study''" "[''GIS'', ''Mapping'']"]
    by simp
  with l show ?thesis by simp
qed

section \<open>Loading a state file\<close>

lemma map_of_dict_set: "map_of (dict_set d k v) = (map_of d)(k \<mapsto> v)"
  by (induction d k v rule: dict_set.induct) auto

lemma keys_dict_set: "set (map fst (dict_set d k v)) = insert k (set (map fst d))"
  by (induction d k v rule: dict_set.induct) auto

lemma distinct_dict_set: "distinct (map fst d) \<Longrightarrow> distinct (map fst (dict_set d k v))"
proof (induction d k v rule: dict_set.induct)
  case (1 k v)
  then show ?case by simp
next
  case (2 k' v' d k v)
  have "k' \<notin> fst ` set (dict_set d k v)" if "k' \<noteq> k"
    using that "2.prems" keys_dict_set [of d k v] by auto
  with 2 show ?case by auto
qed

lemma map_of_fold_dict_set:
  "map_of (fold (\<lambda>(k, v) d. dict_set d k v) items d0) = map_of d0 ++ map_of (rev items)"
proof (induction items arbitrary: d0)
  case Nil
  then show ?case by simp
next
  case (Cons kv items)
  obtain k v where kv: "kv = (k, v)" by (cases kv)
  have "map_of (dict_set d0 k v) ++ map_of (rev items)
      = map_of d0 ++ ([k \<mapsto> v] ++ map_of (rev items))"
    by (rule ext) (auto simp: map_of_dict_set map_add_def split: option.splits)
  with Cons.IH [of "dict_set d0 k v"] show ?case
    by (simp add: kv)
qed

lemma distinct_fold_dict_set:
  "distinct (map fst d0) \<Longrightarrow> distinct (map fst (fold (\<lambda>(k, v) d. dict_set d k v) items d0))"
  by (induction items arbitrary: d0) (auto simp: distinct_dict_set)

lemma distinct_dict_of: "distinct (map fst (dict_of items))"
  by (simp add: dict_of_def distinct_fold_dict_set)

lemma map_of_dict_of: "map_of (dict_of items) = map_of (rev items)"
  by (simp add: dict_of_def map_of_fold_dict_set)

lemma map_of_legacy:
  "map_of (dict_of (map (\<lambda>item. (f item, v)) items)) k =
     (if k \<in> f ` set items then Some v else None)"
proof -
  have "map_of (map (\<lambda>item. (f item, v)) xs) k = (if k \<in> f ` set xs then Some v else None)" for xs
    by (induction xs) auto
  from this [of "rev items"] show ?thesis
    by (simp add: map_of_dict_of rev_map)
qed

text \<open>
  What holds of the loader: a bare array of ids is read as the map from each id
  (rendered by \<open>str\<close>) to the empty marker, and a file that is missing, that cannot be
  opened or read, or whose text is not JSON, is read as the empty map.
\<close>

lemma load_state_map_legacy:
  assumes "files w path = Document (JList items)"
  shows "\<exists>s. load_state_map path w = Inr s \<and> distinct (map fst s) \<and>
           (\<forall>k. map_of s k = (if k \<in> py_str ` set items then Some [] else None))"
  using assms by (simp add: load_state_map_def distinct_dict_of map_of_legacy)

lemma load_state_map_legacy_example:
  "files w path = Document (JList [JStr ''A'', JStr ''B''])
     \<Longrightarrow> load_state_map path w = Inr [(''A'', []), (''B'', [])]"
  by (simp add: load_state_map_def dict_of_def py_str_def)

lemma load_state_map_empty:
  "files w path \<in> {Missing, Raises_OSError, Not_JSON} \<Longrightarrow> load_state_map path w = Inr []"
  by (auto simp: load_state_map_def)

text \<open>
  Claim C7. The part of the claim on unreadable files does not hold of the code: a state
  file whose bytes are not UTF-8 text is unreadable, and on it the loader raises
  \<open>UnicodeDecodeError\<close> instead of returning the empty map, although its docstring says
  that it returns an empty dict on any error. The exception is neither an \<open>OSError\<close>
  nor a \<open>json.JSONDecodeError\<close>, the two that the loader catches.
\<close>

theorem load_state_map_not_utf8_raises:
  "files garbled_world PROJECTS_STATE_FILE = Not_UTF8
   \<and> load_state_map PROJECTS_STATE_FILE garbled_world = Inl UnicodeDecodeError
   \<and> load_state_map PROJECTS_STATE_FILE garbled_world \<noteq> Inr []"
  by (simp add: load_state_map_def garbled_world_def)

section \<open>The effects of the retry loops\<close>

lemma world_trace_append [simp]:
  "(w\<lparr>trace := trace w @ es\<rparr>)\<lparr>trace := trace (w\<lparr>trace := trace w @ es\<rparr>) @ es'\<rparr>
     = w\<lparr>trace := trace w @ (es @ es')\<rparr>"
  by simp

lemma get_loop_effects:
  "get_with_retries_loop url params headers timeout max_retries attempt w = (r, w')
     \<Longrightarrow> \<exists>es. w' = w\<lparr>trace := trace w @ es\<rparr> \<and>
              list_all (get_retry_effect url params headers timeout) es"
proof (induction url params headers timeout max_retries attempt w arbitrary: r w'
        rule: get_with_retries_loop.induct)
  case (1 url params headers timeout max_retries attempt w)
  let ?P = "get_retry_effect url params headers timeout"
  define w1 where "w1 = emit (Http_Get url params headers timeout) w"
  have rq: "requests_get url params headers timeout w = (net w (request_count w), w1)"
    by (simp add: requests_get_def w1_def)
  consider (stop) "\<not> attempt \<le> max_retries"
    | (ret) resp where "attempt \<le> max_retries" "net w (request_count w) = Returned resp"
    | (last) exc where "attempt \<le> max_retries" "net w (request_count w) = RequestException exc"
        "attempt = max_retries"
    | (again) exc where "attempt \<le> max_retries" "net w (request_count w) = RequestException exc"
        "attempt \<noteq> max_retries"
    by (cases "net w (request_count w)") auto
  then show ?case
  proof cases
    case stop
    with "1.prems" have "w' = w\<lparr>trace := trace w @ []\<rparr>"
      by (simp add: get_with_retries_loop.simps)
    then show ?thesis by (intro exI [of _ "[]"]) simp
  next
    case ret
    with "1.prems" rq have "w' = w\<lparr>trace := trace w @ [Http_Get url params headers timeout]\<rparr>"
      by (simp add: get_with_retries_loop.simps w1_def emit_def)
    then show ?thesis by (intro exI [of _ "[Http_Get url params headers timeout]"]) simp
  next
    case last
    with "1.prems" rq have "w' = w\<lparr>trace := trace w @ [Http_Get url params headers timeout,
        Log ERROR ''GET %s failed after %d attempts: %s'' [JStr url, JInt attempt, JStr exc]]\<rparr>"
      by (simp add: get_with_retries_loop.simps w1_def emit_def logger_def)
    then show ?thesis
      by (intro exI [of _ "[Http_Get url params headers timeout,
        Log ERROR ''GET %s failed after %d attempts: %s'' [JStr url, JInt attempt, JStr exc]]"]) simp
  next
    case again
    define pre where "pre = [Http_Get url params headers timeout,
        Log WARNING ''GET %s failed on attempt %d/%d: %s; retrying...''
          [JStr url, JInt attempt, JInt max_retries, JStr exc],
        Sleep (RETRY_BACKOFF_SECONDS * attempt)]"
    define w2 where "w2 = sleep (RETRY_BACKOFF_SECONDS * attempt)
                    (logger WARNING ''GET %s failed on attempt %d/%d: %s; retrying...''
                       [JStr url, JInt attempt, JInt max_retries, JStr exc] w1)"
    have w2: "w2 = w\<lparr>trace := trace w @ pre\<rparr>"
      by (simp add: w2_def w1_def pre_def sleep_def logger_def emit_def)
    from "1.prems" again rq
    have rec: "get_with_retries_loop url params headers timeout max_retries (attempt + 1) w2 = (r, w')"
      by (simp add: get_with_retries_loop.simps w2_def)
    from "1.IH" [OF again(1) rq [symmetric] again(2) again(3) rec [unfolded w2_def]]
    obtain es where es: "w' = w2\<lparr>trace := trace w2 @ es\<rparr>" "list_all ?P es"
      by (auto simp: w2_def)
    have "w' = w\<lparr>trace := trace w @ (pre @ es)\<rparr>" using es(1) w2 by simp
    moreover have "list_all ?P (pre @ es)" using es(2) by (simp add: pre_def)
    ultimately show ?thesis by blast
  qed
qed

lemma post_loop_effects:
  "post_with_retries_loop url payload headers timeout max_retries attempt w = (r, w')
     \<Longrightarrow> \<exists>es. w' = w\<lparr>trace := trace w @ es\<rparr> \<and>
              list_all (post_retry_effect url payload headers timeout) es"
proof (induction url payload headers timeout max_retries attempt w arbitrary: r w'
        rule: post_with_retries_loop.induct)
  case (1 url payload headers timeout max_retries attempt w)
  let ?P = "post_retry_effect url payload headers timeout"
  define w1 where "w1 = emit (Http_Post url payload headers timeout) w"
  have rq: "requests_post url payload headers timeout w = (net w (request_count w), w1)"
    by (simp add: requests_post_def w1_def)
  consider (stop) "\<not> attempt \<le> max_retries"
    | (ret) resp where "attempt \<le> max_retries" "net w (request_count w) = Returned resp"
    | (last) exc where "attempt \<le> max_retries" "net w (request_count w) = RequestException exc"
        "attempt = max_retries"
    | (again) exc where "attempt \<le> max_retries" "net w (request_count w) = RequestException exc"
        "attempt \<noteq> max_retries"
    by (cases "net w (request_count w)") auto
  then show ?case
  proof cases
    case stop
    with "1.prems" have "w' = w\<lparr>trace := trace w @ []\<rparr>"
      by (simp add: post_with_retries_loop.simps)
    then show ?thesis by (intro exI [of _ "[]"]) simp
  next
    case ret
    with "1.prems" rq have "w' = w\<lparr>trace := trace w @ [Http_Post url payload headers timeout]\<rparr>"
      by (simp add: post_with_retries_loop.simps w1_def emit_def)
    then show ?thesis by (intro exI [of _ "[Http_Post url payload headers timeout]"]) simp
  next
    case last
    with "1.prems" rq have "w' = w\<lparr>trace := trace w @ [Http_Post url payload headers timeout,
        Log ERROR ''POST %s failed after %d attempts: %s'' [JStr url, JInt attempt, JStr exc]]\<rparr>"
      by (simp add: post_with_retries_loop.simps w1_def emit_def logger_def)
    then show ?thesis
      by (intro exI [of _ "[Http_Post url payload headers timeout,
        Log ERROR ''POST %s failed after %d attempts: %s'' [JStr url, JInt attempt, JStr exc]]"]) simp
  next
    case again
    define pre where "pre = [Http_Post url payload headers timeout,
        Log WARNING ''POST %s failed on attempt %d/%d: %s; retrying...''
          [JStr url, JInt attempt, JInt max_retries, JStr exc],
        Sleep (RETRY_BACKOFF_SECONDS * attempt)]"
    define w2 where "w2 = sleep (RETRY_BACKOFF_SECONDS * attempt)
                    (logger WARNING ''POST %s failed on attempt %d/%d: %s; retrying...''
                       [JStr url, JInt attempt, JInt max_retries, JStr exc] w1)"
    have w2: "w2 = w\<lparr>trace := trace w @ pre\<rparr>"
      by (simp add: w2_def w1_def pre_def sleep_def logger_def emit_def)
    from "1.prems" again rq
    have rec: "post_with_retries_loop url payload headers timeout max_retries (attempt + 1) w2 = (r, w')"
      by (simp add: post_with_retries_loop.simps w2_def)
    from "1.IH" [OF again(1) rq [symmetric] again(2) again(3) rec [unfolded w2_def]]
    obtain es where es: "w' = w2\<lparr>trace := trace w2 @ es\<rparr>" "list_all ?P es"
      by (auto simp: w2_def)
    have "w' = w\<lparr>trace := trace w @ (pre @ es)\<rparr>" using es(1) w2 by simp
    moreover have "list_all ?P (pre @ es)" using es(2) by (simp add: pre_def)
    ultimately show ?thesis by blast
  qed
qed

section \<open>Pages and failures\<close>

lemma fetch_projects_page_breaks:
  assumes "page_breaks (projects_params rows_per_page page)
            [(''User-Agent'', ''WB-GIS-Monitor-Agent/1.0'')] rows_per_page w"
  shows "\<exists>w'. fetch_projects_page rows_per_page all_projects page w = Done (Inr all_projects, w')"
  using assms
  by (auto simp: page_breaks_def fetch_projects_page_def split: prod.splits option.splits json.splits sum.splits)

lemma main_fetch_page_breaks:
  assumes "page_breaks (main_projects_params rows_per_page page)
            [(''User-Agent'', ''WB-GIS-Monitor/1.0'')] rows_per_page w"
  shows "\<exists>w'. main_fetch_page rows_per_page all_projects page w = Done (Inr all_projects, w')"
  using assms
  by (auto simp: page_breaks_def main_fetch_page_def split: prod.splits option.splits json.splits sum.splits)

lemma fetch_projects_loop_pages:
  "pages_ok fetch_projects_page n rows_per_page all_projects page w = Some (all_projects', page', w')
     \<Longrightarrow> fetch_projects_loop rows_per_page all_projects page w
           = fetch_projects_loop rows_per_page all_projects' page' w' \<and> page' = page + int n"
proof (induction n arbitrary: all_projects page w)
  case 0
  then show ?case by simp
next
  case (Suc n)
  then obtain a1 w1 where step: "fetch_projects_page rows_per_page all_projects page w = Next_Page a1 w1"
    and rest: "pages_ok fetch_projects_page n rows_per_page a1 (page + 1) w1 = Some (all_projects', page', w')"
    by (auto split: page_result.splits)
  have "fetch_projects_loop rows_per_page all_projects page w
      = fetch_projects_loop rows_per_page a1 (page + 1) w1"
    by (subst fetch_projects_loop.simps) (simp add: step)
  with Suc.IH [OF rest] show ?case by simp
qed

lemma main_fetch_loop_pages:
  "pages_ok main_fetch_page n rows_per_page all_projects page w = Some (all_projects', page', w')
     \<Longrightarrow> main_fetch_loop rows_per_page all_projects page w
           = main_fetch_loop rows_per_page all_projects' page' w' \<and> page' = page + int n"
proof (induction n arbitrary: all_projects page w)
  case 0
  then show ?case by simp
next
  case (Suc n)
  then obtain a1 w1 where step: "main_fetch_page rows_per_page all_projects page w = Next_Page a1 w1"
    and rest: "pages_ok main_fetch_page n rows_per_page a1 (page + 1) w1 = Some (all_projects', page', w')"
    by (auto split: page_result.splits)
  have "main_fetch_loop rows_per_page all_projects page w
      = main_fetch_loop rows_per_page a1 (page + 1) w1"
    by (subst main_fetch_loop.simps) (simp add: step)
  with Suc.IH [OF rest] show ?case by simp
qed

text \<open>
  What holds of the fetch of both files: when \<open>n\<close> pages in a row were fetched and
  asked for a next page, leaving the list \<open>all_projects\<close>, and the round for the
  following page is left by \<open>break\<close>, the fetch returns, and what it returns is
  exactly \<open>all_projects\<close>; when that happens on the first page, it returns the empty
  list.
\<close>

lemma fetch_break_keeps_pages:
  "(pages_ok fetch_projects_page n rows_per_page [] 1 w = Some (all_projects, page, w_n)
      \<and> page_breaks (projects_params rows_per_page page)
            [(''User-Agent'', ''WB-GIS-Monitor-Agent/1.0'')] rows_per_page w_n
    \<longrightarrow> (\<exists>w'. fetch_projects_for_nigeria rows_per_page w = Some (Inr all_projects, w')))
   \<and> (pages_ok main_fetch_page n rows_per_page [] 1 w = Some (all_projects, page, w_n)
      \<and> page_breaks (main_projects_params rows_per_page page)
            [(''User-Agent'', ''WB-GIS-Monitor/1.0'')] rows_per_page w_n
    \<longrightarrow> (\<exists>w'. fetch_active_projects_for_nigeria rows_per_page w = Some (Inr all_projects, w')))
   \<and> (page_breaks (projects_params rows_per_page 1)
            [(''User-Agent'', ''WB-GIS-Monitor-Agent/1.0'')] rows_per_page w
    \<longrightarrow> (\<exists>w'. fetch_projects_for_nigeria rows_per_page w = Some (Inr [], w')))
   \<and> (page_breaks (main_projects_params rows_per_page 1)
            [(''User-Agent'', ''WB-GIS-Monitor/1.0'')] rows_per_page w
    \<longrightarrow> (\<exists>w'. fetch_active_projects_for_nigeria rows_per_page w = Some (Inr [], w')))"
proof -
  have a: "\<exists>w'. fetch_projects_for_nigeria rows_per_page w = Some (Inr acc, w')"
    if ok: "pages_ok fetch_projects_page k rows_per_page [] 1 w = Some (acc, p, v)"
      and bad: "page_breaks (projects_params rows_per_page p)
            [(''User-Agent'', ''WB-GIS-Monitor-Agent/1.0'')] rows_per_page v" for k acc p v
  proof -
    from fetch_projects_page_breaks [OF bad, of acc]
    obtain w' where "fetch_projects_page rows_per_page acc p v = Done (Inr acc, w')" by blast
    then have "fetch_projects_loop rows_per_page acc p v = Some (Inr acc, w')"
      by (subst fetch_projects_loop.simps) simp
    with fetch_projects_loop_pages [OF ok] show ?thesis
      by (simp add: fetch_projects_for_nigeria_def)
  qed
  have b: "\<exists>w'. fetch_active_projects_for_nigeria rows_per_page w = Some (Inr acc, w')"
    if ok: "pages_ok main_fetch_page k rows_per_page [] 1 w = Some (acc, p, v)"
      and bad: "page_breaks (main_projects_params rows_per_page p)
            [(''User-Agent'', ''WB-GIS-Monitor/1.0'')] rows_per_page v" for k acc p v
  proof -
    from main_fetch_page_breaks [OF bad, of acc]
    obtain w' where "main_fetch_page rows_per_page acc p v = Done (Inr acc, w')" by blast
    then have "main_fetch_loop rows_per_page acc p v = Some (Inr acc, w')"
      by (subst main_fetch_loop.simps) simp
    with main_fetch_loop_pages [OF ok] show ?thesis
      by (simp add: fetch_active_projects_for_nigeria_def)
  qed
  show ?thesis
    using a [of n all_projects page w_n] b [of n all_projects page w_n]
      a [of 0 "[]" 1 w] b [of 0 "[]" 1 w]
    by simp
qed

lemma two_pages_eval:
  "\<exists>w1. pages_ok fetch_projects_page (Suc 0) 50 [] 1 two_page_world = Some ([project_ng], 2, w1)
     \<and> page_breaks (projects_params 50 2)
            [(''User-Agent'', ''WB-GIS-Monitor-Agent/1.0'')] 50 w1"
  by (simp add: fetch_projects_page_def get_with_retries_def get_with_retries_loop.simps
      requests_get_def MAX_RETRIES_def request_count_def emit_def logger_def
      two_page_world_def flaky_world_def page_one_def raises_for_status_def
      py_get_default_def py_get_def py_or_def int_of_string_def py_strip_def py_isspace_def
      digits_value_def is_digit_def project_ng_def project_ke_def NIGERIA_COUNTRY_CODE_def
      page_breaks_def Let_def)


lemma fetch_break_keeps_pages_example:
  "(\<exists>w1. pages_ok fetch_projects_page (Suc 0) 50 [] 1 two_page_world = Some ([project_ng], 2, w1)
      \<and> page_breaks (projects_params 50 2)
            [(''User-Agent'', ''WB-GIS-Monitor-Agent/1.0'')] 50 w1)
   \<and> (\<exists>w'. fetch_projects_for_nigeria 50 two_page_world = Some (Inr [project_ng], w'))"
  using two_pages_eval
    fetch_break_keeps_pages [of "Suc 0" 50 two_page_world "[project_ng]" 2]
  by blast

lemmas eval_fetch = fetch_projects_page_def main_fetch_page_def get_with_retries_def
  get_with_retries_loop.simps requests_get_def MAX_RETRIES_def request_count_def emit_def
  logger_def flaky_world_def page_one_def raises_for_status_def py_get_default_def py_get_def
  py_or_def int_of_string_def py_strip_def py_isspace_def digits_value_def is_digit_def
  project_ng_def project_ke_def NIGERIA_COUNTRY_CODE_def Let_def

lemma array_body_pages:
  "\<exists>w1. pages_ok fetch_projects_page (Suc 0) 50 [] 1 array_body_world = Some ([project_ng], 2, w1)
     \<and> (\<exists>w2. fetch_projects_page 50 [project_ng] 2 w1 = Done (Inl AttributeError, w2))"
  by (simp add: eval_fetch array_body_world_def)

lemma array_body_pages_main:
  "\<exists>w1. pages_ok main_fetch_page (Suc 0) 50 [] 1 array_body_world = Some ([project_ng], 2, w1)
     \<and> (\<exists>w2. main_fetch_page 50 [project_ng] 2 w1 = Done (Inl AttributeError, w2))"
  by (simp add: eval_fetch array_body_world_def)

lemma bad_total_pages:
  "\<exists>w1. pages_ok fetch_projects_page (Suc 0) 50 [] 1 bad_total_world = Some ([project_ng], 2, w1)
     \<and> (\<exists>w2. fetch_projects_page 50 [project_ng] 2 w1 = Done (Inl ValueError, w2))"
  by (simp add: eval_fetch bad_total_world_def)

lemma bad_total_pages_main:
  "\<exists>w1. pages_ok main_fetch_page (Suc 0) 50 [] 1 bad_total_world = Some ([project_ng], 2, w1)
     \<and> (\<exists>w2. main_fetch_page 50 [project_ng] 2 w1 = Done (Inl ValueError, w2))"
  by (simp add: eval_fetch bad_total_world_def)

lemma fetch_projects_loop_done:
  "fetch_projects_page rows_per_page all_projects page w = Done r
     \<Longrightarrow> fetch_projects_loop rows_per_page all_projects page w = Some r"
  by (subst fetch_projects_loop.simps) simp

lemma main_fetch_loop_done:
  "main_fetch_page rows_per_page all_projects page w = Done r
     \<Longrightarrow> main_fetch_loop rows_per_page all_projects page w = Some r"
  by (subst main_fetch_loop.simps) simp

text \<open>
  Claim C5. The claim does not hold of the code for every malformed body. After a first
  page that was fetched and left one project in the list, a second page with status 200
  whose body is JSON of an unexpected shape (the array \<open>[]\<close>, or an object whose
  \<open>total\<close> is not a number) makes \<open>payload.get\<close> or \<open>int\<close> raise in
  the round; nothing in the fetch catches the exception, and the project of the first
  page is not returned. This is so in both files.
\<close>

theorem fetch_loses_pages_on_malformed_body:
  "(\<exists>w'. fetch_projects_for_nigeria 50 array_body_world = Some (Inl AttributeError, w'))
   \<and> (\<exists>w'. fetch_active_projects_for_nigeria 50 array_body_world = Some (Inl AttributeError, w'))
   \<and> (\<exists>w'. fetch_projects_for_nigeria 50 bad_total_world = Some (Inl ValueError, w'))
   \<and> (\<exists>w'. fetch_active_projects_for_nigeria 50 bad_total_world = Some (Inl ValueError, w'))
   \<and> (\<exists>w1. pages_ok fetch_projects_page (Suc 0) 50 [] 1 array_body_world = Some ([project_ng], 2, w1))
   \<and> (\<exists>w1. pages_ok main_fetch_page (Suc 0) 50 [] 1 array_body_world = Some ([project_ng], 2, w1))"
proof -
  have a: "\<exists>w'. fetch_projects_for_nigeria 50 w = Some (Inl e, w')"
    if "\<exists>w1. pages_ok fetch_projects_page (Suc 0) 50 [] 1 w = Some ([project_ng], 2, w1)
     \<and> (\<exists>w2. fetch_projects_page 50 [project_ng] 2 w1 = Done (Inl e, w2))" for w e
  proof -
    from that obtain w1 w2 where ok: "pages_ok fetch_projects_page (Suc 0) 50 [] 1 w = Some ([project_ng], 2, w1)"
      and bad: "fetch_projects_page 50 [project_ng] 2 w1 = Done (Inl e, w2)" by blast
    from fetch_projects_loop_pages [OF ok] fetch_projects_loop_done [OF bad]
    show ?thesis by (simp add: fetch_projects_for_nigeria_def)
  qed
  have b: "\<exists>w'. fetch_active_projects_for_nigeria 50 w = Some (Inl e, w')"
    if "\<exists>w1. pages_ok main_fetch_page (Suc 0) 50 [] 1 w = Some ([project_ng], 2, w1)
     \<and> (\<exists>w2. main_fetch_page 50 [project_ng] 2 w1 = Done (Inl e, w2))" for w e
  proof -
    from that obtain w1 w2 where ok: "pages_ok main_fetch_page (Suc 0) 50 [] 1 w = Some ([project_ng], 2, w1)"
      and bad: "main_fetch_page 50 [project_ng] 2 w1 = Done (Inl e, w2)" by blast
    from main_fetch_loop_pages [OF ok] main_fetch_loop_done [OF bad]
    show ?thesis by (simp add: fetch_active_projects_for_nigeria_def)
  qed
  from a [OF array_body_pages] b [OF array_body_pages_main] a [OF bad_total_pages]
    b [OF bad_total_pages_main] array_body_pages array_body_pages_main
  show ?thesis by blast
qed

section \<open>Steps that extend the trace\<close>

lemma extends_refl: "extends Q w w"
  by (auto simp: extends_def)

lemma extends_trans: "extends Q w w1 \<Longrightarrow> extends Q w1 w2 \<Longrightarrow> extends Q w w2"
  unfolding extends_def
  apply (elim conjE exE)
  subgoal for es1 es2
    apply (intro conjI exI [of _ "es1 @ es2"])
           apply simp_all
    apply (metis)
    done
  done

lemma extends_mono: "extends Q w w' \<Longrightarrow> (\<And>e. Q e \<Longrightarrow> R e) \<Longrightarrow> extends R w w'"
  unfolding extends_def by (auto simp: list_all_iff)

lemma extends_emit: "Q e \<Longrightarrow> extends Q w (emit e w)"
  by (auto simp: extends_def emit_def)

lemma extends_logger: "Q (Log lv fmt args) \<Longrightarrow> extends Q w (logger lv fmt args w)"
  by (simp add: logger_def extends_emit)

lemma extends_append:
  "list_all Q es \<Longrightarrow> extends Q w (w\<lparr>trace := trace w @ es\<rparr>)"
  by (auto simp: extends_def)

lemma extends_news:
  "extends Q w w' \<Longrightarrow> trace w' = trace w @ news w w' \<and> list_all Q (news w w')"
  by (auto simp: extends_def news_def)

lemma extends_files:
  assumes "extends Q w w'" and "\<forall>j. \<not> Q (Write_File p j)"
  shows "files w' p = files w p"
proof -
  from assms(1) obtain es where es: "list_all Q es"
    "files w' p = files w p \<or> (\<exists>j. Write_File p j \<in> set es)"
    unfolding extends_def by blast
  from es(1) assms(2) have "\<forall>j. Write_File p j \<notin> set es"
    by (auto simp: list_all_iff)
  with es(2) show ?thesis by blast
qed

lemma extends_write_state:
  "Q (Write_File path (json_of_state mapping)) \<Longrightarrow> Q (Log ERROR fmt args)
     \<Longrightarrow> extends Q w (write_state fmt args path mapping w)"
  by (auto simp: extends_def write_state_def emit_def logger_def)

lemma get_with_retries_extends:
  assumes "get_with_retries url params headers timeout max_retries w = (r, w')"
  shows "extends (get_retry_effect url params headers timeout) w w'"
proof -
  from assms get_loop_effects obtain es where "w' = w\<lparr>trace := trace w @ es\<rparr>"
    "list_all (get_retry_effect url params headers timeout) es"
    unfolding get_with_retries_def by blast
  then show ?thesis by (simp add: extends_append)
qed

lemma post_with_retries_extends:
  assumes "post_with_retries url payload headers timeout max_retries w = (r, w')"
  shows "extends (post_retry_effect url payload headers timeout) w w'"
proof -
  from assms post_loop_effects obtain es where "w' = w\<lparr>trace := trace w @ es\<rparr>"
    "list_all (post_retry_effect url payload headers timeout) es"
    unfolding post_with_retries_def by blast
  then show ?thesis by (simp add: extends_append)
qed

lemma post_alert_effects:
  assumes "post_alert payload user_agent failed_line sent_line status_fmt w = (sent, w')"
  shows "extends (send_effect (webhook_url w) payload user_agent failed_line sent_line status_fmt) w w'"
    and "news w w' \<noteq> []"
    and "sent \<Longrightarrow> last (news w w') = sent_line"
    and "\<not> sent \<Longrightarrow> last (news w w') = failed_line
            \<or> (\<exists>st tx. last (news w w') = Log ERROR status_fmt [JInt st, JStr tx])"
proof -
  let ?Q = "send_effect (webhook_url w) payload user_agent failed_line sent_line status_fmt"
  obtain r w1 where p: "post_with_retries (webhook_url w) payload [(''User-Agent'', user_agent)]
             HTTP_TIMEOUT MAX_RETRIES w = (r, w1)" by (cases "post_with_retries (webhook_url w) payload [(''User-Agent'', user_agent)]
             HTTP_TIMEOUT MAX_RETRIES w")
  from post_with_retries_extends [OF p] have e1: "extends ?Q w w1"
    by (rule extends_mono) (simp add: send_effect_def)
  obtain fin where fin: "w' = emit fin w1" "?Q fin" "sent \<longrightarrow> fin = sent_line"
     "\<not> sent \<longrightarrow> fin = failed_line \<or> (\<exists>st tx. fin = Log ERROR status_fmt [JInt st, JStr tx])"
    using assms p
    by (auto simp: post_alert_def send_effect_def logger_def split: option.splits if_splits)
  have "extends ?Q w1 (emit fin w1)"
    using fin(2) by (rule extends_emit)
  with e1 fin(1) show "extends ?Q w w'"
    by (auto intro: extends_trans)
  from extends_news [OF e1] have "trace w' = trace w @ (news w w1 @ [fin])"
    using fin(1) by (simp add: emit_def)
  then have n: "news w w' = news w w1 @ [fin]"
    by (simp add: news_def)
  then show "news w w' \<noteq> []" by simp
  from n fin(3) show "sent \<Longrightarrow> last (news w w') = sent_line" by simp
  from n fin(4) show "\<not> sent \<Longrightarrow> last (news w w') = failed_line
            \<or> (\<exists>st tx. last (news w w') = Log ERROR status_fmt [JInt st, JStr tx])" by simp
qed

section \<open>The step of the diff-and-notify loop\<close>

lemma project_step_skip:
  "project_id_of project = [] \<or>
   map_of s (project_id_of project) = Some (get_project_last_update project)
     \<Longrightarrow> project_step project s n w = (s, n, w)"
  by (auto simp: project_step_def Let_def)

lemma project_step_send:
  assumes "project_id_of project \<noteq> []"
    and "map_of s (project_id_of project) \<noteq> Some (get_project_last_update project)"
    and "send_project_alert_embed project (map_of s (project_id_of project) \<noteq> None)
           (project_announced project s w) = (sent, w2)"
  shows "project_step project s n w =
           (if sent then dict_set s (project_id_of project) (get_project_last_update project) else s,
            if sent then n + 1 else n, w2)"
proof (cases "map_of s (project_id_of project)")
  case None
  with assms show ?thesis
    by (simp add: project_step_def Let_def project_announced_def)
next
  case (Some previous)
  with assms show ?thesis
    by (simp add: project_step_def Let_def project_announced_def)
qed

lemma main_project_step_skip:
  "project_id_of project = [] \<or>
   map_of s (project_id_of project) = Some (get_project_last_update project)
     \<Longrightarrow> main_project_step project s n w = (s, n, w)"
  by (auto simp: main_project_step_def Let_def)

lemma main_project_step_send:
  assumes "project_id_of project \<noteq> []"
    and "map_of s (project_id_of project) \<noteq> Some (get_project_last_update project)"
    and "send_discord_embed project (main_project_announced project s w) = (sent, w2)"
  shows "main_project_step project s n w =
           (if sent then dict_set s (project_id_of project) (get_project_last_update project) else s,
            if sent then n + 1 else n, w2)"
proof (cases "map_of s (project_id_of project)")
  case None
  with assms show ?thesis
    by (simp add: main_project_step_def Let_def main_project_announced_def)
next
  case (Some previous)
  with assms show ?thesis
    by (simp add: main_project_step_def Let_def main_project_announced_def)
qed

lemma send_project_alert_embed_news:
  "send_project_alert_embed project is_update w = (sent, w') \<Longrightarrow> news w w' \<noteq> []"
  by (auto simp: send_project_alert_embed_def news_def logger_def emit_def
      dest: post_alert_effects(2) split: if_splits)

lemma send_discord_embed_news:
  "send_discord_embed project w = (sent, w') \<Longrightarrow> news w w' \<noteq> []"
  by (auto simp: send_discord_embed_def news_def logger_def emit_def
      dest: post_alert_effects(2) split: if_splits)

text \<open>
  Claim C1. For a project with a non-empty id, in the loop of either file: when the
  state has the id with the current marker, the step changes neither the state nor the
  count nor the world (nothing is sent, nothing is logged); otherwise the send function
  is called (it always leaves effects), and the step commits the current marker under
  the id and counts one alert exactly when the send returns \<open>True\<close>; when it returns
  \<open>False\<close> the state is the one before, so that the next run finds the same difference.
\<close>

theorem commit_only_on_success:
  assumes "project_id_of project \<noteq> []"
  shows "(map_of s (project_id_of project) = Some (get_project_last_update project)
            \<longrightarrow> project_step project s n w = (s, n, w)
              \<and> main_project_step project s n w = (s, n, w))
       \<and> (map_of s (project_id_of project) \<noteq> Some (get_project_last_update project)
            \<longrightarrow> (\<exists>sent w2.
                   send_project_alert_embed project (map_of s (project_id_of project) \<noteq> None)
                     (project_announced project s w) = (sent, w2)
                   \<and> news (project_announced project s w) w2 \<noteq> []
                   \<and> project_step project s n w =
                       (if sent then dict_set s (project_id_of project) (get_project_last_update project)
                        else s,
                        if sent then n + 1 else n, w2))
              \<and> (\<exists>sent w2.
                   send_discord_embed project (main_project_announced project s w) = (sent, w2)
                   \<and> news (main_project_announced project s w) w2 \<noteq> []
                   \<and> main_project_step project s n w =
                       (if sent then dict_set s (project_id_of project) (get_project_last_update project)
                        else s,
                        if sent then n + 1 else n, w2)))
       \<and> map_of (dict_set s (project_id_of project) (get_project_last_update project))
            (project_id_of project) = Some (get_project_last_update project)"
proof (intro conjI impI)
  assume eq: "map_of s (project_id_of project) = Some (get_project_last_update project)"
  show "project_step project s n w = (s, n, w)" using eq by (simp add: project_step_skip)
  show "main_project_step project s n w = (s, n, w)" using eq by (simp add: main_project_step_skip)
next
  assume ne: "map_of s (project_id_of project) \<noteq> Some (get_project_last_update project)"
  obtain sent w2 where snd: "send_project_alert_embed project (map_of s (project_id_of project) \<noteq> None)
                     (project_announced project s w) = (sent, w2)"
    by (cases "send_project_alert_embed project (map_of s (project_id_of project) \<noteq> None)
                     (project_announced project s w)")
  from snd send_project_alert_embed_news [OF snd] project_step_send [OF assms ne snd]
  show "\<exists>sent w2.
                   send_project_alert_embed project (map_of s (project_id_of project) \<noteq> None)
                     (project_announced project s w) = (sent, w2)
                   \<and> news (project_announced project s w) w2 \<noteq> []
                   \<and> project_step project s n w =
                       (if sent then dict_set s (project_id_of project) (get_project_last_update project)
                        else s,
                        if sent then n + 1 else n, w2)"
    by blast
next
  assume ne: "map_of s (project_id_of project) \<noteq> Some (get_project_last_update project)"
  obtain sent w2 where snd: "send_discord_embed project (main_project_announced project s w) = (sent, w2)"
    by (cases "send_discord_embed project (main_project_announced project s w)")
  from snd send_discord_embed_news [OF snd] main_project_step_send [OF assms ne snd]
  show "\<exists>sent w2.
                   send_discord_embed project (main_project_announced project s w) = (sent, w2)
                   \<and> news (main_project_announced project s w) w2 \<noteq> []
                   \<and> main_project_step project s n w =
                       (if sent then dict_set s (project_id_of project) (get_project_last_update project)
                        else s,
                        if sent then n + 1 else n, w2)"
    by blast
next
  show "map_of (dict_set s (project_id_of project) (get_project_last_update project))
            (project_id_of project) = Some (get_project_last_update project)"
    by (simp add: map_of_dict_set)
qed

theorem commit_only_on_success_witness:
  "project_id_of project_ng \<noteq> []
   \<and> map_of [] (project_id_of project_ng) \<noteq> Some (get_project_last_update project_ng)
   \<and> (\<exists>sent w2.
         send_project_alert_embed project_ng (map_of [] (project_id_of project_ng) \<noteq> None)
           (project_announced project_ng [] flaky_world) = (sent, w2)
         \<and> project_step project_ng [] 0 flaky_world =
             (if sent then dict_set [] (project_id_of project_ng) (get_project_last_update project_ng)
              else [],
              if sent then 0 + 1 else 0, w2))"
proof -
  have id: "project_id_of project_ng \<noteq> []"
    by (simp add: project_id_of_def project_ng_def py_get_def py_get_default_def py_or_def
        py_str_def py_strip_def py_isspace_def)
  from commit_only_on_success [OF id, of "[]" 0 flaky_world] id show ?thesis
    by auto
qed

section \<open>New or update\<close>

lemma post_with_retries_first:
  assumes "post_with_retries url payload headers timeout MAX_RETRIES w = (r, w')"
  shows "\<exists>es. news w w' = Http_Post url payload headers timeout # es"
proof (cases "net w (request_count w)")
  case (Returned resp)
  with assms have "w' = emit (Http_Post url payload headers timeout) w"
    by (simp add: post_with_retries_def post_with_retries_loop.simps MAX_RETRIES_def
        requests_post_def)
  then show ?thesis by (simp add: news_def emit_def)
next
  case (RequestException exc)
  define w2 where "w2 = sleep (RETRY_BACKOFF_SECONDS * 1)
     (logger WARNING ''POST %s failed on attempt %d/%d: %s; retrying...''
        [JStr url, JInt 1, JInt MAX_RETRIES, JStr exc]
        (emit (Http_Post url payload headers timeout) w))"
  from assms RequestException
  have "post_with_retries_loop url payload headers timeout MAX_RETRIES (1 + 1) w2 = (r, w')"
    by (subst (asm) post_with_retries_def, subst (asm) post_with_retries_loop.simps)
       (simp add: MAX_RETRIES_def requests_post_def w2_def)
  from post_loop_effects [OF this] obtain es where "w' = w2\<lparr>trace := trace w2 @ es\<rparr>"
    by blast
  then have "trace w' = trace w @ Http_Post url payload headers timeout #
      ([Log WARNING ''POST %s failed on attempt %d/%d: %s; retrying...''
          [JStr url, JInt 1, JInt MAX_RETRIES, JStr exc], Sleep (RETRY_BACKOFF_SECONDS * 1)] @ es)"
    by (simp add: w2_def sleep_def logger_def emit_def)
  then show ?thesis by (simp add: news_def)
qed

lemma post_alert_first:
  assumes "post_alert payload user_agent failed_line sent_line status_fmt w = (sent, w')"
  shows "\<exists>es. news w w' =
           Http_Post (webhook_url w) payload [(''User-Agent'', user_agent)] HTTP_TIMEOUT # es"
proof -
  obtain r w1 where p: "post_with_retries (webhook_url w) payload [(''User-Agent'', user_agent)]
             HTTP_TIMEOUT MAX_RETRIES w = (r, w1)"
    by (cases "post_with_retries (webhook_url w) payload [(''User-Agent'', user_agent)]
             HTTP_TIMEOUT MAX_RETRIES w")
  from post_with_retries_first [OF p] obtain es where
    es: "news w w1 = Http_Post (webhook_url w) payload [(''User-Agent'', user_agent)] HTTP_TIMEOUT # es"
    by blast
  from post_with_retries_extends [OF p] obtain es1 where t1: "trace w1 = trace w @ es1"
    unfolding extends_def by blast
  from assms p obtain fin where "w' = emit fin w1"
    by (auto simp: post_alert_def logger_def split: option.splits if_splits)
  with t1 have "news w w' = es1 @ [fin]" "news w w1 = es1"
    by (simp_all add: news_def emit_def)
  with es show ?thesis by simp
qed

lemma send_project_alert_embed_first:
  assumes "\<not> webhook_unconfigured w"
    and "send_project_alert_embed project is_update w = (sent, w')"
  shows "\<exists>es. news w w' =
           Http_Post (webhook_url w) (project_alert_payload project is_update)
             [(''User-Agent'', ''WB-GIS-Monitor-Agent/1.0'')] HTTP_TIMEOUT # es"
  using assms by (auto simp: send_project_alert_embed_def dest: post_alert_first)

lemma project_alert_title:
  "alert_title (project_alert_payload project is_update) =
     Some (JStr ((if is_update then ''Project Update'' else ''New Project Plan'') @ '': '' @
             py_str (py_or (py_get project ''project_name'') (JStr ''(No title)''))))"
  by (simp add: alert_title_def project_alert_payload_def Let_def)

lemma project_id_of_absent: "map_of project ''id'' = None \<Longrightarrow> project_id_of project = []"
  by (simp add: project_id_of_def py_get_def py_get_default_def py_or_def py_str_def py_strip_def)

lemma project_ng_id: "project_id_of project_ng = ''P100''"
  by (simp add: project_id_of_def project_ng_def py_get_def py_get_default_def py_or_def
      py_str_def py_strip_def py_isspace_def)

text \<open>
  Claim C3. For a project with a non-empty id: when the id is not in the state, the step
  announces a new project and sends with \<open>is_update = False\<close>, whatever the marker is
  (the empty marker included); when the id is in the state with another marker, it
  announces an update and sends with \<open>is_update = True\<close>; when the id is in the state
  with the same marker, nothing is sent. The payload of \<open>monitor_agent.py\<close> carries the
  class in its title; \<open>main.py\<close> has it in the log line only.
\<close>

theorem new_versus_update:
  assumes "project_id_of project \<noteq> []"
  shows "(map_of s (project_id_of project) = None \<longrightarrow>
            project_announced project s w
              = logger INFO ''New project %s detected.'' [JStr (project_id_of project)] w
          \<and> main_project_announced project s w
              = logger INFO ''Sending notification for NEW project %s...''
                  [JStr (project_id_of project)] w
          \<and> (\<exists>sent w2. send_project_alert_embed project False (project_announced project s w) = (sent, w2)
                \<and> snd (snd (project_step project s n w)) = w2)
          \<and> (\<exists>sent w2. send_discord_embed project (main_project_announced project s w) = (sent, w2)
                \<and> snd (snd (main_project_step project s n w)) = w2))
       \<and> (\<forall>previous. map_of s (project_id_of project) = Some previous
              \<and> previous \<noteq> get_project_last_update project \<longrightarrow>
            project_announced project s w
              = logger INFO ''Project %s updated (was %s, now %s).''
                  [JStr (project_id_of project), JStr previous,
                   JStr (get_project_last_update project)] w
          \<and> main_project_announced project s w
              = logger INFO ''Sending notification for UPDATED project %s (was %s, now %s)...''
                  [JStr (project_id_of project), JStr previous,
                   JStr (get_project_last_update project)] w
          \<and> (\<exists>sent w2. send_project_alert_embed project True (project_announced project s w) = (sent, w2)
                \<and> snd (snd (project_step project s n w)) = w2)
          \<and> (\<exists>sent w2. send_discord_embed project (main_project_announced project s w) = (sent, w2)
                \<and> snd (snd (main_project_step project s n w)) = w2))
       \<and> (map_of s (project_id_of project) = Some (get_project_last_update project) \<longrightarrow>
            project_step project s n w = (s, n, w) \<and> main_project_step project s n w = (s, n, w))
       \<and> alert_title (project_alert_payload project False)
            = Some (JStr (''New Project Plan: '' @
                py_str (py_or (py_get project ''project_name'') (JStr ''(No title)''))))
       \<and> alert_title (project_alert_payload project True)
            = Some (JStr (''Project Update: '' @
                py_str (py_or (py_get project ''project_name'') (JStr ''(No title)''))))"
proof -
  let ?pid = "project_id_of project" and ?cur = "get_project_last_update project"
  let ?name = "py_str (py_or (py_get project ''project_name'') (JStr ''(No title)''))"
  have sends: "(\<exists>sent w2. send_project_alert_embed project (map_of s ?pid \<noteq> None)
                   (project_announced project s w) = (sent, w2)
                \<and> snd (snd (project_step project s n w)) = w2)
          \<and> (\<exists>sent w2. send_discord_embed project (main_project_announced project s w) = (sent, w2)
                \<and> snd (snd (main_project_step project s n w)) = w2)"
    if ne: "map_of s ?pid \<noteq> Some ?cur"
  proof -
    obtain sent w2 where a: "send_project_alert_embed project (map_of s ?pid \<noteq> None)
          (project_announced project s w) = (sent, w2)"
      by (cases "send_project_alert_embed project (map_of s ?pid \<noteq> None)
          (project_announced project s w)")
    obtain sent' w2' where b: "send_discord_embed project (main_project_announced project s w) = (sent', w2')"
      by (cases "send_discord_embed project (main_project_announced project s w)")
    from project_step_send [OF assms ne a] main_project_step_send [OF assms ne b] a b
    show ?thesis by simp
  qed
  have c1: "map_of s ?pid = None \<longrightarrow>
            project_announced project s w = logger INFO ''New project %s detected.'' [JStr ?pid] w
          \<and> main_project_announced project s w
              = logger INFO ''Sending notification for NEW project %s...'' [JStr ?pid] w
          \<and> (\<exists>sent w2. send_project_alert_embed project False (project_announced project s w) = (sent, w2)
                \<and> snd (snd (project_step project s n w)) = w2)
          \<and> (\<exists>sent w2. send_discord_embed project (main_project_announced project s w) = (sent, w2)
                \<and> snd (snd (main_project_step project s n w)) = w2)"
  proof
    assume none: "map_of s ?pid = None"
    then have "map_of s ?pid \<noteq> Some ?cur" by simp
    from sends [OF this] none show "project_announced project s w
            = logger INFO ''New project %s detected.'' [JStr ?pid] w
          \<and> main_project_announced project s w
              = logger INFO ''Sending notification for NEW project %s...'' [JStr ?pid] w
          \<and> (\<exists>sent w2. send_project_alert_embed project False (project_announced project s w) = (sent, w2)
                \<and> snd (snd (project_step project s n w)) = w2)
          \<and> (\<exists>sent w2. send_discord_embed project (main_project_announced project s w) = (sent, w2)
                \<and> snd (snd (main_project_step project s n w)) = w2)"
      by (simp add: project_announced_def main_project_announced_def)
  qed
  have c2: "\<forall>previous. map_of s ?pid = Some previous \<and> previous \<noteq> ?cur \<longrightarrow>
            project_announced project s w
              = logger INFO ''Project %s updated (was %s, now %s).''
                  [JStr ?pid, JStr previous, JStr ?cur] w
          \<and> main_project_announced project s w
              = logger INFO ''Sending notification for UPDATED project %s (was %s, now %s)...''
                  [JStr ?pid, JStr previous, JStr ?cur] w
          \<and> (\<exists>sent w2. send_project_alert_embed project True (project_announced project s w) = (sent, w2)
                \<and> snd (snd (project_step project s n w)) = w2)
          \<and> (\<exists>sent w2. send_discord_embed project (main_project_announced project s w) = (sent, w2)
                \<and> snd (snd (main_project_step project s n w)) = w2)"
  proof (intro allI impI)
    fix previous
    assume "map_of s ?pid = Some previous \<and> previous \<noteq> ?cur"
    then have some: "map_of s ?pid = Some previous" and "map_of s ?pid \<noteq> Some ?cur" by simp_all
    from sends [OF this(2)] some show "project_announced project s w
              = logger INFO ''Project %s updated (was %s, now %s).''
                  [JStr ?pid, JStr previous, JStr ?cur] w
          \<and> main_project_announced project s w
              = logger INFO ''Sending notification for UPDATED project %s (was %s, now %s)...''
                  [JStr ?pid, JStr previous, JStr ?cur] w
          \<and> (\<exists>sent w2. send_project_alert_embed project True (project_announced project s w) = (sent, w2)
                \<and> snd (snd (project_step project s n w)) = w2)
          \<and> (\<exists>sent w2. send_discord_embed project (main_project_announced project s w) = (sent, w2)
                \<and> snd (snd (main_project_step project s n w)) = w2)"
      by (simp add: project_announced_def main_project_announced_def)
  qed
  have c3: "map_of s ?pid = Some ?cur \<longrightarrow>
            project_step project s n w = (s, n, w) \<and> main_project_step project s n w = (s, n, w)"
    by (simp add: project_step_skip main_project_step_skip)
  have c4: "alert_title (project_alert_payload project False)
            = Some (JStr (''New Project Plan: '' @ ?name))"
    by (simp add: project_alert_title)
  have c5: "alert_title (project_alert_payload project True)
            = Some (JStr (''Project Update: '' @ ?name))"
    by (simp add: project_alert_title)
  show ?thesis
    by (intro conjI) (rule c1 c2 c3 c4 c5)+
qed

theorem new_versus_update_witness:
  "project_id_of project_ng \<noteq> [] \<and> map_of [] (project_id_of project_ng) = None
   \<and> project_announced project_ng [] flaky_world
       = logger INFO ''New project %s detected.'' [JStr (project_id_of project_ng)] flaky_world
   \<and> (\<exists>sent w2. send_project_alert_embed project_ng False
                      (project_announced project_ng [] flaky_world) = (sent, w2)
         \<and> snd (snd (project_step project_ng [] 0 flaky_world)) = w2)"
proof -
  have id: "project_id_of project_ng \<noteq> []" by (simp add: project_ng_id)
  have absent: "map_of [] (project_id_of project_ng) = None" by simp
  from new_versus_update [OF id, of "[]" flaky_world 0] absent
  have "project_announced project_ng [] flaky_world
       = logger INFO ''New project %s detected.'' [JStr (project_id_of project_ng)] flaky_world
   \<and> (\<exists>sent w2. send_project_alert_embed project_ng False
                      (project_announced project_ng [] flaky_world) = (sent, w2)
         \<and> snd (snd (project_step project_ng [] 0 flaky_world)) = w2)"
    by blast
  with id absent show ?thesis by blast
qed

section \<open>The frame of a step\<close>

text \<open>
  Claim C10. The step for one project leaves the entry of every other id as it was
  (present or not, and its marker), in the loop of either file; and a project whose id
  is empty or absent leaves the whole state as it was.
\<close>

theorem step_frame:
  "(k \<noteq> project_id_of project \<longrightarrow>
       map_of (fst (project_step project s n w)) k = map_of s k
     \<and> map_of (fst (main_project_step project s n w)) k = map_of s k)
   \<and> (project_id_of project = [] \<longrightarrow>
       fst (project_step project s n w) = s \<and> fst (main_project_step project s n w) = s)
   \<and> (map_of project ''id'' = None \<longrightarrow> project_id_of project = [])"
proof -
  have a: "map_of (fst (project_step project s n w)) k = map_of s k" if "k \<noteq> project_id_of project"
    using that
    by (auto simp: project_step_def Let_def map_of_dict_set split: prod.splits)
  have b: "map_of (fst (main_project_step project s n w)) k = map_of s k" if "k \<noteq> project_id_of project"
    using that
    by (auto simp: main_project_step_def Let_def map_of_dict_set split: prod.splits)
  show ?thesis
    using a b by (simp add: project_step_skip main_project_step_skip project_id_of_absent)
qed

theorem step_frame_witness:
  "''P999'' \<noteq> project_id_of project_ng
   \<and> map_of (fst (project_step project_ng [(''P999'', ''2023-05-05'')] 0 flaky_world)) ''P999''
       = Some ''2023-05-05''"
  using step_frame [of "''P999''" project_ng "[(''P999'', ''2023-05-05'')]" 0 flaky_world]
  by (simp add: project_ng_id)

end
